theory Spec2Isabelle
  imports Main "HOL-Library.Word"
begin

section \<open>Values exchanged between the client, its surfaces and the Call\<close>

text \<open>
  Modelled from the spec: the \<open>Status\<close> enum of constants.ts, the gRPC status codes.
  The source under study only names \<open>OK\<close>, \<open>CANCELLED\<close> and \<open>INTERNAL\<close>.
\<close>

datatype status =
    OK | CANCELLED | UNKNOWN | INVALID_ARGUMENT | DEADLINE_EXCEEDED | NOT_FOUND
  | ALREADY_EXISTS | PERMISSION_DENIED | RESOURCE_EXHAUSTED | FAILED_PRECONDITION
  | ABORTED | OUT_OF_RANGE | UNIMPLEMENTED | INTERNAL | UNAVAILABLE | DATA_LOSS
  | UNAUTHENTICATED

text \<open>A Node \<open>Buffer\<close> is a sequence of bytes; a thrown JavaScript error is its message.\<close>

type_synonym buffer = "8 word list"
type_synonym js_error = string

text \<open>
  Modelled from the spec: \<open>Metadata\<close> of metadata.ts, a mapping from a key to an ordered
  sequence of values, in insertion order. \<open>new Metadata()\<close> is the empty bag.
\<close>

type_synonym metadata = "(string \<times> string list) list"


text \<open>\<open>StatusObject\<close> of call-stream.ts, as the handlers read it: code, details, metadata.\<close>

record status_object =
  code :: status
  details :: string
  metadata :: metadata

text \<open>
  \<open>ServiceError = StatusObject & Error\<close>. Both handlers build it with
  \<open>Object.assign(new Error(status.details), status)\<close>: the fields of the status, and the
  message of the error, which is the status details.
\<close>

record service_error = status_object +
  message :: string

definition ServiceError :: "status_object \<Rightarrow> service_error" where
  "ServiceError st =
     \<lparr>code = code st, details = details st, metadata = metadata st, message = details st\<rparr>"

text \<open>
  \<open>WriteObject\<close> of call-stream.ts: the serialized message and an optional flag word. The
  flag is a JavaScript number, kept abstract as \<open>'n\<close>; \<open>None\<close> is an absent field.
\<close>

datatype 'n write_object = WriteObject (wo_message: buffer) (wo_flags: "'n option")



subsection \<open>What the code does to its collaborators\<close>

text \<open>
  The Call (call-stream.ts), the Channel, the Node stream base classes and the user's
  callbacks are collaborators of the code under study. Every method the code invokes on
  them is recorded, in program order, in a log. A function (a unary callback, a write
  callback) and a channel are named by a number; \<open>CreateCall\<close> starts with the channel.
  The type \<open>'r\<close> is \<open>ResponseType\<close>, the response messages. \<open>Push None\<close> is
  \<open>stream.push(null)\<close>, \<open>Push (Some v)\<close> pushes the message \<open>v\<close> and \<open>PushUndefined\<close> is
  \<open>stream.push(undefined)\<close>. In the value of a user callback and in \<open>responseMessage\<close>,
  \<open>None\<close> stands for \<open>null\<close> and for \<open>undefined\<close> alike: the only tests the code applies
  to them are \<open>!= null\<close> and \<open>== null\<close>, which do not tell the two apart.
\<close>

text \<open>
  What a deserialization function returns when it does not throw. Nothing in the source
  keeps \<open>deserialize\<close> from returning \<open>null\<close> or \<open>undefined\<close>.
\<close>

datatype 'r returned = ReturnsNull | ReturnsUndefined | Returns 'r

datatype ('n, 'r) effect =
    CreateCall nat string "int option" "string option" "nat option" "'n option"
  | SetCredentials nat
  | SendMetadata metadata
  | CallWrite "'n write_object" "nat option"
  | CallEnd
  | CancelWithStatus status string
  | Pause
  | Resume
  | Push "'r option"
  | PushUndefined
  | EmitMetadata metadata
  | EmitStatus status_object
  | EmitError service_error
  | UserCallback nat "service_error option" "'r option"
  | WriteCallback nat "js_error option"
  | FinalCallback nat

text \<open>The events a Call emits to its listeners.\<close>

datatype call_event =
    OnMetadata metadata
  | OnData buffer
  | OnEnd
  | OnStatus status_object

text \<open>
  Every surface object holds its Call; the state of a surface is the log of what has been
  done to the Call and to the surface so far, extended by the variables its listeners
  close over.
\<close>

record ('n, 'r) surface =
  log :: "('n, 'r) effect list"

definition perform :: "('n, 'r) effect \<Rightarrow> ('n, 'r, 'z) surface_scheme \<Rightarrow> ('n, 'r, 'z) surface_scheme" where
  "perform e s = s\<lparr>log := log s @ [e]\<rparr>"

section \<open>call.ts: the surface classes\<close>

subsection \<open>cancel\<close>

text \<open>Each of the four classes has its own \<open>cancel\<close> method (call.ts 60, 118, 164, 195).\<close>

definition ClientUnaryCallImpl_cancel :: "('n, 'r, 'z) surface_scheme \<Rightarrow> ('n, 'r, 'z) surface_scheme" where
  "ClientUnaryCallImpl_cancel s = perform (CancelWithStatus CANCELLED ''Cancelled on client'') s"

definition ClientReadableStreamImpl_cancel :: "('n, 'r, 'z) surface_scheme \<Rightarrow> ('n, 'r, 'z) surface_scheme" where
  "ClientReadableStreamImpl_cancel s = perform (CancelWithStatus CANCELLED ''Cancelled on client'') s"

definition ClientWritableStreamImpl_cancel :: "('n, 'r, 'z) surface_scheme \<Rightarrow> ('n, 'r, 'z) surface_scheme" where
  "ClientWritableStreamImpl_cancel s = perform (CancelWithStatus CANCELLED ''Cancelled on client'') s"

definition ClientDuplexStreamImpl_cancel :: "('n, 'r, 'z) surface_scheme \<Rightarrow> ('n, 'r, 'z) surface_scheme" where
  "ClientDuplexStreamImpl_cancel s = perform (CancelWithStatus CANCELLED ''Cancelled on client'') s"

datatype surface_variant = UnaryCall | ReadableStream | WritableStream | DuplexStream

fun cancel :: "surface_variant \<Rightarrow> ('n, 'r, 'z) surface_scheme \<Rightarrow> ('n, 'r, 'z) surface_scheme" where
  "cancel UnaryCall = ClientUnaryCallImpl_cancel"
| "cancel ReadableStream = ClientReadableStreamImpl_cancel"
| "cancel WritableStream = ClientWritableStreamImpl_cancel"
| "cancel DuplexStream = ClientDuplexStreamImpl_cancel"

subsection \<open>tryWrite\<close>

text \<open>
  \<open>tryWrite\<close> (call.ts 131-148). \<open>serialize\<close> is the user's function: it returns a buffer
  or throws. \<open>Number\<close> is JavaScript's conversion of the encoding string, with \<open>None\<close> for
  \<open>NaN\<close>; it is evaluated before \<open>serialize\<close> runs and its value is stored only when it
  is a number.
\<close>

definition tryWrite ::
  "(string \<Rightarrow> 'n option) \<Rightarrow> ('q \<Rightarrow> js_error + buffer) \<Rightarrow> 'q \<Rightarrow> string \<Rightarrow> nat \<Rightarrow>
     ('n, 'r, 'z) surface_scheme \<Rightarrow> ('n, 'r, 'z) surface_scheme" where
  "tryWrite Number serialize chunk encoding cb s =
     (let flags = Number encoding in
      case serialize chunk of
        Inl e \<Rightarrow>
          perform (WriteCallback cb (Some e))
            (perform (CancelWithStatus INTERNAL ''Serialization failure'') s)
      | Inr msg \<Rightarrow>
          perform (CallWrite (WriteObject msg flags) (Some cb)) s)"

subsection \<open>ClientUnaryCallImpl\<close>

text \<open>The constructor (call.ts 50-58) forwards the Call's metadata and status events.\<close>

fun ClientUnaryCallImpl_on :: "call_event \<Rightarrow> ('n, 'r, 'z) surface_scheme \<Rightarrow> ('n, 'r, 'z) surface_scheme" where
  "ClientUnaryCallImpl_on (OnMetadata md) s = perform (EmitMetadata md) s"
| "ClientUnaryCallImpl_on (OnStatus st) s = perform (EmitStatus st) s"
| "ClientUnaryCallImpl_on _ s = s"

subsection \<open>setUpReadableStream\<close>

text \<open>
  The listeners of \<open>setUpReadableStream\<close> (call.ts 69-104) close over \<open>statusEmitted\<close>.
  Each \<open>end\<close> event that arrives before the status registers one more one-shot status
  listener; \<open>statusOnce\<close> counts the ones registered and not yet fired. The stream is
  an event emitter of Node: \<open>errorListeners\<close> counts the listeners that the application
  has attached to it for the \<open>error\<close> event.
\<close>

record ('n, 'r) readable = "('n, 'r) surface" +
  statusEmitted :: bool
  statusOnce :: nat
  errorListeners :: nat

text \<open>\<open>stream.push(deserialized)\<close>, for each value that \<open>deserialize\<close> can return.\<close>

fun push :: "'r returned \<Rightarrow> ('n, 'r) effect" where
  "push (Returns v) = Push (Some v)"
| "push ReturnsNull = Push None"
| "push ReturnsUndefined = PushUndefined"

text \<open>
  The data listener (call.ts 73-84). \<open>deserialize\<close> returns a value or throws; the
  value is pushed as it is, so a message that deserializes to \<open>null\<close> is pushed as
  \<open>null\<close>. What \<open>stream.push\<close> returns is decided by the buffer of the Node stream:
  \<open>push_returns\<close> gives it from the log up to and including this push.
\<close>

definition setUpReadableStream_data ::
  "(buffer \<Rightarrow> js_error + 'r returned) \<Rightarrow> (('n, 'r) effect list \<Rightarrow> bool) \<Rightarrow> buffer \<Rightarrow>
     ('n, 'r, 'z) readable_scheme \<Rightarrow> ('n, 'r, 'z) readable_scheme" where
  "setUpReadableStream_data deserialize push_returns data s =
     (case deserialize data of
        Inl e \<Rightarrow> perform (CancelWithStatus INTERNAL ''Failed to parse server response'') s
      | Inr deserialized \<Rightarrow>
          (let s1 = perform (push deserialized) s in
           if \<not> push_returns (log s1) then perform Pause s1 else s1))"

text \<open>The end listener (call.ts 85-93).\<close>

definition setUpReadableStream_end :: "('n, 'r, 'z) readable_scheme \<Rightarrow> ('n, 'r, 'z) readable_scheme" where
  "setUpReadableStream_end s =
     (if statusEmitted s then perform (Push None) s
      else s\<lparr>statusOnce := Suc (statusOnce s)\<rparr>)"

text \<open>
  The status listener (call.ts 94-102). An emitter of Node throws the error out of
  \<open>emit('error', error)\<close> when it has no listener for \<open>error\<close>: the status listener then
  ends there, before \<open>stream.emit('status', status)\<close> and before \<open>statusEmitted = true\<close>.
  The result is the new state and the error thrown, if any.
\<close>

definition setUpReadableStream_status ::
  "status_object \<Rightarrow> ('n, 'r, 'z) readable_scheme \<Rightarrow>
     ('n, 'r, 'z) readable_scheme \<times> service_error option" where
  "setUpReadableStream_status st s =
     (if code st \<noteq> OK then
        (let err = ServiceError st; s1 = perform (EmitError err) s in
         if errorListeners s = 0 then (s1, Some err)
         else ((perform (EmitStatus st) s1)\<lparr>statusEmitted := True\<rparr>, None))
      else ((perform (EmitStatus st) s)\<lparr>statusEmitted := True\<rparr>, None))"

text \<open>
  The one-shot listeners that earlier \<open>end\<close> events registered on the Call's status event
  (call.ts 89-91). Each pushes \<open>null\<close> and is gone after it ran.
\<close>

definition once_status :: "('n, 'r, 'z) readable_scheme \<Rightarrow> ('n, 'r, 'z) readable_scheme" where
  "once_status s = s\<lparr>log := log s @ replicate (statusOnce s) (Push None), statusOnce := 0\<rparr>"

text \<open>
  The Call calls the listeners of an event in the order of their registration: for
  \<open>status\<close>, the status listener and then the one-shot listeners, which were registered
  later. When the status listener throws, the Call's \<open>emit\<close> ends with that exception:
  the one-shot listeners are not called and stay registered.
\<close>

definition status_listeners ::
  "status_object \<Rightarrow> ('n, 'r, 'z) readable_scheme \<Rightarrow> ('n, 'r, 'z) readable_scheme" where
  "status_listeners st s =
     (case setUpReadableStream_status st s of
        (s', Some thrown) \<Rightarrow> s'
      | (s', None) \<Rightarrow> once_status s')"

fun setUpReadableStream_on ::
  "(buffer \<Rightarrow> js_error + 'r returned) \<Rightarrow> (('n, 'r) effect list \<Rightarrow> bool) \<Rightarrow> call_event \<Rightarrow>
     ('n, 'r, 'z) readable_scheme \<Rightarrow> ('n, 'r, 'z) readable_scheme" where
  "setUpReadableStream_on deserialize push_returns (OnMetadata md) s = s"
| "setUpReadableStream_on deserialize push_returns (OnData data) s =
     setUpReadableStream_data deserialize push_returns data s"
| "setUpReadableStream_on deserialize push_returns OnEnd s = setUpReadableStream_end s"
| "setUpReadableStream_on deserialize push_returns (OnStatus st) s = status_listeners st s"

text \<open>
  The last statement of \<open>setUpReadableStream\<close> (call.ts 103) pauses the Call. A stream
  is constructed without listeners for \<open>error\<close>.
\<close>

definition setUpReadableStream :: "('n, 'r) effect list \<Rightarrow> ('n, 'r) readable" where
  "setUpReadableStream l =
     \<lparr>log = l @ [Pause], statusEmitted = False, statusOnce = 0, errorListeners = 0\<rparr>"

text \<open>
  \<open>stream.on('error', listener)\<close> and \<open>stream.removeListener('error', listener)\<close>, which
  the streams inherit from the emitter of Node.
\<close>

definition on_error :: "('n, 'r, 'z) readable_scheme \<Rightarrow> ('n, 'r, 'z) readable_scheme" where
  "on_error s = s\<lparr>errorListeners := Suc (errorListeners s)\<rparr>"

definition off_error :: "('n, 'r, 'z) readable_scheme \<Rightarrow> ('n, 'r, 'z) readable_scheme" where
  "off_error s = s\<lparr>errorListeners := errorListeners s - 1\<rparr>"

subsection \<open>ClientReadableStreamImpl\<close>

text \<open>
  The constructor (call.ts 108-116) registers the metadata listener first and then calls
  \<open>setUpReadableStream\<close>. Its argument is the log of what was done to the Call before.
\<close>

definition ClientReadableStreamImpl :: "('n, 'r) effect list \<Rightarrow> ('n, 'r) readable" where
  "ClientReadableStreamImpl l = setUpReadableStream l"

fun ClientReadableStreamImpl_on ::
  "(buffer \<Rightarrow> js_error + 'r returned) \<Rightarrow> (('n, 'r) effect list \<Rightarrow> bool) \<Rightarrow> call_event \<Rightarrow>
     ('n, 'r) readable \<Rightarrow> ('n, 'r) readable" where
  "ClientReadableStreamImpl_on deserialize push_returns (OnMetadata md) s =
     setUpReadableStream_on deserialize push_returns (OnMetadata md) (perform (EmitMetadata md) s)"
| "ClientReadableStreamImpl_on deserialize push_returns ev s =
     setUpReadableStream_on deserialize push_returns ev s"

definition ClientReadableStreamImpl_read :: "('n, 'r) readable \<Rightarrow> ('n, 'r) readable" where
  "ClientReadableStreamImpl_read s = perform Resume s"

text \<open>What can happen to a readable stream: an event of its Call, or a call of a method.\<close>

datatype readable_op = RFromCall call_event | RCancel | RRead | ROnError | ROffError

fun ClientReadableStreamImpl_step ::
  "(buffer \<Rightarrow> js_error + 'r returned) \<Rightarrow> (('n, 'r) effect list \<Rightarrow> bool) \<Rightarrow> readable_op \<Rightarrow>
     ('n, 'r) readable \<Rightarrow> ('n, 'r) readable" where
  "ClientReadableStreamImpl_step deserialize push_returns (RFromCall ev) s =
     ClientReadableStreamImpl_on deserialize push_returns ev s"
| "ClientReadableStreamImpl_step deserialize push_returns RCancel s =
     ClientReadableStreamImpl_cancel s"
| "ClientReadableStreamImpl_step deserialize push_returns RRead s =
     ClientReadableStreamImpl_read s"
| "ClientReadableStreamImpl_step deserialize push_returns ROnError s = on_error s"
| "ClientReadableStreamImpl_step deserialize push_returns ROffError s = off_error s"

subsection \<open>ClientWritableStreamImpl\<close>

text \<open>The constructor (call.ts 152-162) forwards metadata and status.\<close>

fun ClientWritableStreamImpl_on :: "call_event \<Rightarrow> ('n, 'r, 'z) surface_scheme \<Rightarrow> ('n, 'r, 'z) surface_scheme" where
  "ClientWritableStreamImpl_on (OnMetadata md) s = perform (EmitMetadata md) s"
| "ClientWritableStreamImpl_on (OnStatus st) s = perform (EmitStatus st) s"
| "ClientWritableStreamImpl_on _ s = s"

definition ClientWritableStreamImpl_write ::
  "(string \<Rightarrow> 'n option) \<Rightarrow> ('q \<Rightarrow> js_error + buffer) \<Rightarrow> 'q \<Rightarrow> string \<Rightarrow> nat \<Rightarrow>
     ('n, 'r, 'z) surface_scheme \<Rightarrow> ('n, 'r, 'z) surface_scheme" where
  "ClientWritableStreamImpl_write Number serialize chunk encoding cb s =
     tryWrite Number serialize chunk encoding cb s"

definition ClientWritableStreamImpl_final :: "nat \<Rightarrow> ('n, 'r, 'z) surface_scheme \<Rightarrow> ('n, 'r, 'z) surface_scheme" where
  "ClientWritableStreamImpl_final cb s = perform (FinalCallback cb) (perform CallEnd s)"

subsection \<open>ClientDuplexStreamImpl\<close>

text \<open>The constructor (call.ts 184-193) is that of the readable stream.\<close>

definition ClientDuplexStreamImpl :: "('n, 'r) effect list \<Rightarrow> ('n, 'r) readable" where
  "ClientDuplexStreamImpl l = setUpReadableStream l"

fun ClientDuplexStreamImpl_on ::
  "(buffer \<Rightarrow> js_error + 'r returned) \<Rightarrow> (('n, 'r) effect list \<Rightarrow> bool) \<Rightarrow> call_event \<Rightarrow>
     ('n, 'r) readable \<Rightarrow> ('n, 'r) readable" where
  "ClientDuplexStreamImpl_on deserialize push_returns (OnMetadata md) s =
     setUpReadableStream_on deserialize push_returns (OnMetadata md) (perform (EmitMetadata md) s)"
| "ClientDuplexStreamImpl_on deserialize push_returns ev s =
     setUpReadableStream_on deserialize push_returns ev s"

definition ClientDuplexStreamImpl_read :: "('n, 'r) readable \<Rightarrow> ('n, 'r) readable" where
  "ClientDuplexStreamImpl_read s = perform Resume s"

definition ClientDuplexStreamImpl_write ::
  "(string \<Rightarrow> 'n option) \<Rightarrow> ('q \<Rightarrow> js_error + buffer) \<Rightarrow> 'q \<Rightarrow> string \<Rightarrow> nat \<Rightarrow>
     ('n, 'r) readable \<Rightarrow> ('n, 'r) readable" where
  "ClientDuplexStreamImpl_write Number serialize chunk encoding cb s =
     tryWrite Number serialize chunk encoding cb s"

definition ClientDuplexStreamImpl_final :: "nat \<Rightarrow> ('n, 'r) readable \<Rightarrow> ('n, 'r) readable" where
  "ClientDuplexStreamImpl_final cb s = perform (FinalCallback cb) (perform CallEnd s)"

datatype 'q duplex_op =
    DFromCall call_event | DCancel | DRead | DWrite 'q string nat | DFinal nat
  | DOnError | DOffError

fun ClientDuplexStreamImpl_step ::
  "(string \<Rightarrow> 'n option) \<Rightarrow> ('q \<Rightarrow> js_error + buffer) \<Rightarrow>
   (buffer \<Rightarrow> js_error + 'r returned) \<Rightarrow> (('n, 'r) effect list \<Rightarrow> bool) \<Rightarrow> 'q duplex_op \<Rightarrow>
     ('n, 'r) readable \<Rightarrow> ('n, 'r) readable" where
  "ClientDuplexStreamImpl_step Number serialize deserialize push_returns (DFromCall ev) s =
     ClientDuplexStreamImpl_on deserialize push_returns ev s"
| "ClientDuplexStreamImpl_step Number serialize deserialize push_returns DCancel s =
     ClientDuplexStreamImpl_cancel s"
| "ClientDuplexStreamImpl_step Number serialize deserialize push_returns DRead s =
     ClientDuplexStreamImpl_read s"
| "ClientDuplexStreamImpl_step Number serialize deserialize push_returns (DWrite chunk encoding cb) s =
     ClientDuplexStreamImpl_write Number serialize chunk encoding cb s"
| "ClientDuplexStreamImpl_step Number serialize deserialize push_returns (DFinal cb) s =
     ClientDuplexStreamImpl_final cb s"
| "ClientDuplexStreamImpl_step Number serialize deserialize push_returns DOnError s = on_error s"
| "ClientDuplexStreamImpl_step Number serialize deserialize push_returns DOffError s = off_error s"

section \<open>client.ts\<close>

subsection \<open>handleUnaryResponse\<close>

text \<open>
  The three listeners of \<open>handleUnaryResponse\<close> (client.ts 85-118) close over
  \<open>responseMessage\<close>, initially \<open>null\<close>. The data listener does not return after
  cancelling for a surplus message: it goes on to deserialize it, and assigns whatever
  \<open>deserialize\<close> returns; when that is \<open>null\<close> or \<open>undefined\<close>, \<open>responseMessage\<close> is
  again one that the tests \<open>!= null\<close> and \<open>== null\<close> take for absent. \<open>callback\<close> names
  the user's function.
\<close>

fun recorded :: "'r returned \<Rightarrow> 'r option" where
  "recorded (Returns v) = Some v"
| "recorded ReturnsNull = None"
| "recorded ReturnsUndefined = None"

record ('n, 'r) unary = "('n, 'r) surface" +
  responseMessage :: "'r option"

definition handleUnaryResponse_data ::
  "(buffer \<Rightarrow> js_error + 'r returned) \<Rightarrow> buffer \<Rightarrow> ('n, 'r) unary \<Rightarrow> ('n, 'r) unary" where
  "handleUnaryResponse_data deserialize data s =
     (let s1 = (if responseMessage s \<noteq> None
                then perform (CancelWithStatus INTERNAL ''Too many responses received'') s
                else s)
      in case deserialize data of
           Inr r \<Rightarrow> s1\<lparr>responseMessage := recorded r\<rparr>
         | Inl e \<Rightarrow> perform (CancelWithStatus INTERNAL ''Failed to parse server response'') s1)"

definition handleUnaryResponse_end :: "('n, 'r) unary \<Rightarrow> ('n, 'r) unary" where
  "handleUnaryResponse_end s =
     (if responseMessage s = None
      then perform (CancelWithStatus INTERNAL ''Not enough responses received'') s
      else s)"

definition handleUnaryResponse_status :: "nat \<Rightarrow> status_object \<Rightarrow> ('n, 'r) unary \<Rightarrow> ('n, 'r) unary" where
  "handleUnaryResponse_status callback st s =
     (if code st = OK then perform (UserCallback callback None (responseMessage s)) s
      else perform (UserCallback callback (Some (ServiceError st)) None) s)"

fun handleUnaryResponse_on ::
  "(buffer \<Rightarrow> js_error + 'r returned) \<Rightarrow> nat \<Rightarrow> call_event \<Rightarrow> ('n, 'r) unary \<Rightarrow> ('n, 'r) unary" where
  "handleUnaryResponse_on deserialize callback (OnMetadata md) s = s"
| "handleUnaryResponse_on deserialize callback (OnData data) s =
     handleUnaryResponse_data deserialize data s"
| "handleUnaryResponse_on deserialize callback OnEnd s = handleUnaryResponse_end s"
| "handleUnaryResponse_on deserialize callback (OnStatus st) s =
     handleUnaryResponse_status callback st s"

definition handleUnaryResponse :: "('n, 'r) effect list \<Rightarrow> ('n, 'r) unary" where
  "handleUnaryResponse l = \<lparr>log = l, responseMessage = None\<rparr>"

subsection \<open>The optional arguments of the dispatch methods\<close>








subsection \<open>The Client and its channel\<close>

text \<open>
  \<open>ClientOptions\<close> (client.ts 26-30). A channel and a channel factory are named by a
  number; the fields of \<open>ChannelOptions\<close> are a list of settings.
\<close>

record client_options =
  channelOverride :: "nat option"
  channelFactoryOverride :: "nat option"
  channel_options :: "(string \<times> string) list"

definition no_client_options :: client_options where
  "no_client_options = \<lparr>channelOverride = None, channelFactoryOverride = None, channel_options = []\<rparr>"

record client =
  kChannel :: nat

text \<open>What constructing a client does to obtain a channel.\<close>

datatype channel_effect =
    CallFactory nat string nat client_options
  | NewHttp2Channel string nat client_options
  | ChannelClose nat

text \<open>
  The constructor (client.ts 38-49). \<open>call_factory f\<close> is the function that the factory
  named \<open>f\<close> computes and \<open>new_Http2Channel\<close> the constructor of channel.ts; both
  return the channel they make. An omitted options argument is \<open>{}\<close>.
\<close>

definition Client ::
  "(nat \<Rightarrow> string \<Rightarrow> nat \<Rightarrow> client_options \<Rightarrow> nat) \<Rightarrow> (string \<Rightarrow> nat \<Rightarrow> client_options \<Rightarrow> nat) \<Rightarrow>
     string \<Rightarrow> nat \<Rightarrow> client_options option \<Rightarrow> client \<times> channel_effect list" where
  "Client call_factory new_Http2Channel address creds options_arg =
     (let options = (case options_arg of None \<Rightarrow> no_client_options | Some opts \<Rightarrow> opts) in
      case channelOverride options of
        Some ch \<Rightarrow> (\<lparr>kChannel = ch\<rparr>, [])
      | None \<Rightarrow>
          (case channelFactoryOverride options of
             Some f \<Rightarrow>
               (\<lparr>kChannel = call_factory f address creds options\<rparr>,
                [CallFactory f address creds options])
           | None \<Rightarrow>
               (\<lparr>kChannel = new_Http2Channel address creds options\<rparr>,
                [NewHttp2Channel address creds options])))"

definition getChannel :: "client \<Rightarrow> nat" where
  "getChannel c = kChannel c"

definition close :: "client \<Rightarrow> client \<times> channel_effect list" where
  "close c = (c, [ChannelClose (kChannel c)])"

subsection \<open>The four dispatch methods\<close>







section \<open>The filter interface\<close>

text \<open>
  A promise is modelled by how it settles: fulfilled with a value, rejected with an error,
  or never. An \<open>async\<close> method whose body is \<open>return p\<close> for a promise \<open>p\<close> returns a new
  promise that is resolved with \<open>p\<close> and so settles as \<open>p\<close> does.
\<close>

datatype 'a promise = Fulfilled 'a | Rejected js_error | Pending

fun async_return :: "'a promise \<Rightarrow> 'a promise" where
  "async_return (Fulfilled v) = Fulfilled v"
| "async_return (Rejected e) = Rejected e"
| "async_return Pending = Pending"

text \<open>The five methods of \<open>BaseFilter\<close> (filter.ts 20-40).\<close>

definition BaseFilter_sendMetadata :: "metadata promise \<Rightarrow> metadata promise" where
  "BaseFilter_sendMetadata md = async_return md"

definition BaseFilter_receiveMetadata :: "metadata promise \<Rightarrow> metadata promise" where
  "BaseFilter_receiveMetadata md = async_return md"

definition BaseFilter_sendMessage :: "'n write_object promise \<Rightarrow> 'n write_object promise" where
  "BaseFilter_sendMessage msg = async_return msg"

definition BaseFilter_receiveMessage :: "buffer promise \<Rightarrow> buffer promise" where
  "BaseFilter_receiveMessage msg = async_return msg"

definition BaseFilter_receiveTrailers :: "status_object promise \<Rightarrow> status_object promise" where
  "BaseFilter_receiveTrailers st = async_return st"

section \<open>The pause contract of the Call\<close>

text \<open>
  Modelled from the spec: \<open>pause\<close> and \<open>resume\<close> of the Call (call-stream.ts). A Call stops
  emitting \<open>data\<close> events when it is paused, until it is resumed; it is paused when the
  last of the \<open>pause\<close> and \<open>resume\<close> calls made on it was a \<open>pause\<close>.
\<close>

definition call_paused :: "('n, 'r) effect list \<Rightarrow> bool" where
  "call_paused l =
     foldl (\<lambda>p e. case e of Pause \<Rightarrow> True | Resume \<Rightarrow> False | _ \<Rightarrow> p) False l"

fun call_may_emit :: "call_event \<Rightarrow> ('n, 'r) effect list \<Rightarrow> bool" where
  "call_may_emit (OnData d) l = (\<not> call_paused l)"
| "call_may_emit _ l = True"

text \<open>
  A sequence of operations on a readable or duplex stream respects the pause contract
  when each event of the Call in it is one the Call may emit at that point.
\<close>

fun readable_respects_pause ::
  "(buffer \<Rightarrow> js_error + 'r returned) \<Rightarrow> (('n, 'r) effect list \<Rightarrow> bool) \<Rightarrow> readable_op list \<Rightarrow>
     ('n, 'r) readable \<Rightarrow> bool" where
  "readable_respects_pause ds pr [] s = True"
| "readable_respects_pause ds pr (RFromCall ev # ops) s =
     (call_may_emit ev (log s) \<and>
      readable_respects_pause ds pr ops (ClientReadableStreamImpl_step ds pr (RFromCall ev) s))"
| "readable_respects_pause ds pr (x # ops) s =
     readable_respects_pause ds pr ops (ClientReadableStreamImpl_step ds pr x s)"

fun duplex_respects_pause ::
  "(string \<Rightarrow> 'n option) \<Rightarrow> ('q \<Rightarrow> js_error + buffer) \<Rightarrow>
   (buffer \<Rightarrow> js_error + 'r returned) \<Rightarrow> (('n, 'r) effect list \<Rightarrow> bool) \<Rightarrow> 'q duplex_op list \<Rightarrow>
     ('n, 'r) readable \<Rightarrow> bool" where
  "duplex_respects_pause nb sr ds pr [] s = True"
| "duplex_respects_pause nb sr ds pr (DFromCall ev # ops) s =
     (call_may_emit ev (log s) \<and>
      duplex_respects_pause nb sr ds pr ops (ClientDuplexStreamImpl_step nb sr ds pr (DFromCall ev) s))"
| "duplex_respects_pause nb sr ds pr (x # ops) s =
     duplex_respects_pause nb sr ds pr ops (ClientDuplexStreamImpl_step nb sr ds pr x s)"

section \<open>The cancellation contract of the Call\<close>




section \<open>Runs of a surface, and derived views of its log\<close>

text \<open>
  The state of a readable stream, of a duplex stream and of the unary response handler
  after a sequence of operations; \<open>l\<close> is the log of what the dispatch method did to the
  Call before it built the surface.
\<close>

definition readable_after ::
  "(buffer \<Rightarrow> js_error + 'r returned) \<Rightarrow> (('n, 'r) effect list \<Rightarrow> bool) \<Rightarrow> ('n, 'r) effect list \<Rightarrow>
     readable_op list \<Rightarrow> ('n, 'r) readable" where
  "readable_after ds pr l ops =
     fold (ClientReadableStreamImpl_step ds pr) ops (ClientReadableStreamImpl l)"

definition duplex_after ::
  "(string \<Rightarrow> 'n option) \<Rightarrow> ('q \<Rightarrow> js_error + buffer) \<Rightarrow>
   (buffer \<Rightarrow> js_error + 'r returned) \<Rightarrow> (('n, 'r) effect list \<Rightarrow> bool) \<Rightarrow> ('n, 'r) effect list \<Rightarrow>
     'q duplex_op list \<Rightarrow> ('n, 'r) readable" where
  "duplex_after nb sr ds pr l ops =
     fold (ClientDuplexStreamImpl_step nb sr ds pr) ops (ClientDuplexStreamImpl l)"


text \<open>
  The \<open>error\<close> events that the code of call.ts brings about on its stream by an emit
  or by an error given to a write callback, in order. There are these two kinds: the
  status listener emits one itself, and \<open>tryWrite\<close> hands the error that \<open>serialize\<close>
  threw to the callback of \<open>_write\<close>, which belongs to the writable side of the Node
  stream and answers an error with an \<open>error\<close> event on the stream. A Node stream can
  emit errors of its own for other reasons (a push after the end of the stream is one);
  the list is a lower bound of the \<open>error\<close> events of the stream.
\<close>

datatype stream_error = StatusError service_error | WriteError js_error

fun error_event :: "('n, 'r) effect \<Rightarrow> stream_error list" where
  "error_event (EmitError e) = [StatusError e]"
| "error_event (WriteCallback cb (Some e)) = [WriteError e]"
| "error_event _ = []"

definition emitted_errors :: "('n, 'r) effect list \<Rightarrow> stream_error list" where
  "emitted_errors l = concat (map error_event l)"

text \<open>The \<open>error\<close> events that a single operation on a duplex stream brings about.\<close>

fun errors_of_op ::
  "('q \<Rightarrow> js_error + buffer) \<Rightarrow> 'q duplex_op \<Rightarrow> stream_error list" where
  "errors_of_op sr (DFromCall (OnStatus st)) =
     (if code st \<noteq> OK then [StatusError (ServiceError st)] else [])"
| "errors_of_op sr (DWrite chunk enc cb) =
     (case sr chunk of Inl e \<Rightarrow> [WriteError e] | Inr msg \<Rightarrow> [])"
| "errors_of_op sr _ = []"

text \<open>A readable stream has the operations of a duplex stream that are not writes.\<close>

fun as_duplex :: "readable_op \<Rightarrow> 'q duplex_op" where
  "as_duplex (RFromCall ev) = DFromCall ev"
| "as_duplex RCancel = DCancel"
| "as_duplex RRead = DRead"
| "as_duplex ROnError = DOnError"
| "as_duplex ROffError = DOffError"

text \<open>
  What one operation on a duplex stream appends to the log, written out per operation;
  \<open>log_duplex_step\<close> below proves that the step function appends exactly this.
\<close>

fun duplex_effects ::
  "(string \<Rightarrow> 'n option) \<Rightarrow> ('q \<Rightarrow> js_error + buffer) \<Rightarrow>
   (buffer \<Rightarrow> js_error + 'r returned) \<Rightarrow> (('n, 'r) effect list \<Rightarrow> bool) \<Rightarrow> 'q duplex_op \<Rightarrow>
     ('n, 'r) readable \<Rightarrow> ('n, 'r) effect list" where
  "duplex_effects nb sr ds pr (DFromCall (OnMetadata md)) s = [EmitMetadata md]"
| "duplex_effects nb sr ds pr (DFromCall (OnData d)) s =
     (case ds d of
        Inl e \<Rightarrow> [CancelWithStatus INTERNAL ''Failed to parse server response'']
      | Inr v \<Rightarrow> push v # (if pr (log s @ [push v]) then [] else [Pause]))"
| "duplex_effects nb sr ds pr (DFromCall OnEnd) s = (if statusEmitted s then [Push None] else [])"
| "duplex_effects nb sr ds pr (DFromCall (OnStatus st)) s =
     (if code st \<noteq> OK \<and> errorListeners s = 0 then [EmitError (ServiceError st)]
      else (if code st \<noteq> OK then [EmitError (ServiceError st)] else [])
             @ EmitStatus st # replicate (statusOnce s) (Push None))"
| "duplex_effects nb sr ds pr DCancel s = [CancelWithStatus CANCELLED ''Cancelled on client'']"
| "duplex_effects nb sr ds pr DRead s = [Resume]"
| "duplex_effects nb sr ds pr (DWrite chunk enc cb) s =
     (case sr chunk of
        Inl e \<Rightarrow> [CancelWithStatus INTERNAL ''Serialization failure'', WriteCallback cb (Some e)]
      | Inr msg \<Rightarrow> [CallWrite (WriteObject msg (nb enc)) (Some cb)])"
| "duplex_effects nb sr ds pr (DFinal cb) s = [CallEnd, FinalCallback cb]"
| "duplex_effects nb sr ds pr DOnError s = []"
| "duplex_effects nb sr ds pr DOffError s = []"

text \<open>
  Invariants of a log: every \<open>push(null)\<close> in it comes after an emitted status; a status
  has been emitted.
\<close>

definition eos_after_status :: "('n, 'r) effect list \<Rightarrow> bool" where
  "eos_after_status l \<longleftrightarrow>
     (\<forall>i<length l. l ! i = Push None \<longrightarrow> (\<exists>j<i. \<exists>st. l ! j = EmitStatus st))"

definition status_logged :: "('n, 'r) effect list \<Rightarrow> bool" where
  "status_logged l \<longleftrightarrow> (\<exists>st. EmitStatus st \<in> set l)"

definition eos_inv :: "('n, 'r) readable \<Rightarrow> bool" where
  "eos_inv s \<longleftrightarrow> eos_after_status (log s) \<and> (statusEmitted s \<longleftrightarrow> status_logged (log s))"

section \<open>The resolution rule in the words of the specification\<close>



section \<open>Sample inputs\<close>

text \<open>Concrete user functions and values, for evaluating the model.\<close>

definition sample_deserialize :: "buffer \<Rightarrow> js_error + nat returned" where
  "sample_deserialize b =
     (if b = [] then Inl ''empty message''
      else if b = [0] then Inr ReturnsNull
      else Inr (Returns (length b)))"

definition sample_decode :: "buffer \<Rightarrow> js_error + nat returned" where
  "sample_decode b = (if b = [] then Inl ''empty message'' else Inr (Returns (length b)))"

definition sample_serialize :: "nat \<Rightarrow> js_error + buffer" where
  "sample_serialize q = (if q = 3 then Inl ''boom'' else Inr [of_nat q])"

definition sample_status :: "status \<Rightarrow> status_object" where
  "sample_status c = \<lparr>code = c, details = ''trailers'', metadata = []\<rparr>"

definition sample_factory :: "nat \<Rightarrow> string \<Rightarrow> nat \<Rightarrow> client_options \<Rightarrow> nat" where
  "sample_factory f address creds options = 100 + f"

definition sample_Http2Channel :: "string \<Rightarrow> nat \<Rightarrow> client_options \<Rightarrow> nat" where
  "sample_Http2Channel address creds options = 1"



definition parse_failure :: status_object where
  "parse_failure =
     \<lparr>code = INTERNAL, details = ''Failed to parse server response'', metadata = []\<rparr>"

section \<open>Properties\<close>

subsection \<open>Logs of single steps\<close>

lemma log_perform [simp]: "log (perform e s) = log s @ [e]"
  by (simp add: perform_def)

lemma log_tryWrite:
  "log (tryWrite nb sr chunk enc cb s) =
     log s @ (case sr chunk of
                Inl e \<Rightarrow> [CancelWithStatus INTERNAL ''Serialization failure'', WriteCallback cb (Some e)]
              | Inr msg \<Rightarrow> [CallWrite (WriteObject msg (nb enc)) (Some cb)])"
  by (simp add: tryWrite_def split: sum.split)

subsection \<open>cancel\<close>

text \<open>
  C6. On each of the four surface variants, \<open>cancel()\<close> does one thing: it calls
  \<open>cancelWithStatus\<close> on the Call with code \<open>CANCELLED\<close> and details
  \<open>Cancelled on client\<close>.
\<close>

theorem cancel_delegates:
  "cancel v s = s\<lparr>log := log s @ [CancelWithStatus CANCELLED ''Cancelled on client'']\<rparr>"
  by (cases v)
     (simp_all add: ClientUnaryCallImpl_cancel_def ClientReadableStreamImpl_cancel_def
        ClientWritableStreamImpl_cancel_def ClientDuplexStreamImpl_cancel_def perform_def)

subsection \<open>Serialization failure\<close>

text \<open>
  C3. When the user's \<open>serialize\<close> throws on the chunk of a write, on a writable and on a
  duplex stream, the write does exactly two things: it cancels the Call with \<open>INTERNAL\<close>
  and \<open>Serialization failure\<close>, and it passes the thrown error to the callback of that
  write. \<open>Call.write\<close> is not invoked.
\<close>

theorem serialization_failure_cancels:
  assumes "serialize chunk = Inl e"
  shows "log (ClientWritableStreamImpl_write nb serialize chunk encoding cb w) =
           log w @ [CancelWithStatus INTERNAL ''Serialization failure'', WriteCallback cb (Some e)]
       \<and> log (ClientDuplexStreamImpl_step nb serialize deserialize pr (DWrite chunk encoding cb) s) =
           log s @ [CancelWithStatus INTERNAL ''Serialization failure'', WriteCallback cb (Some e)]"
  using assms
  by (simp add: ClientWritableStreamImpl_write_def ClientDuplexStreamImpl_write_def log_tryWrite)

theorem serialization_failure_cancels_witness:
  "sample_serialize 3 = Inl ''boom''
   \<and> log (ClientWritableStreamImpl_write (\<lambda>enc. None :: nat option) sample_serialize 3 ''1'' 7
            (\<lparr>log = []\<rparr> :: (nat, nat) surface)) =
       [CancelWithStatus INTERNAL ''Serialization failure'', WriteCallback 7 (Some ''boom'')]
   \<and> log (ClientDuplexStreamImpl_step (\<lambda>enc. None :: nat option) sample_serialize
            sample_deserialize (\<lambda>l. True) (DWrite 3 ''1'' 7) (ClientDuplexStreamImpl [])) =
       [Pause, CancelWithStatus INTERNAL ''Serialization failure'', WriteCallback 7 (Some ''boom'')]"
proof -
  have h: "sample_serialize 3 = Inl ''boom''" by (simp add: sample_serialize_def)
  show ?thesis
    using h serialization_failure_cancels [where serialize = sample_serialize and chunk = 3
        and e = "''boom''" and nb = "\<lambda>enc. None :: nat option" and encoding = "''1''" and cb = 7
        and w = "\<lparr>log = []\<rparr> :: (nat, nat) surface" and deserialize = sample_deserialize
        and pr = "\<lambda>l. True" and s = "ClientDuplexStreamImpl []"]
    by (simp add: ClientDuplexStreamImpl_def setUpReadableStream_def)
qed

subsection \<open>The default filter\<close>

lemma async_return_same: "async_return p = p"
  by (cases p) simp_all

text \<open>
  C8. Each of the five transforms of \<open>BaseFilter\<close> returns a promise that settles exactly
  as its input does: it resolves to the value the input resolves to.
\<close>

theorem BaseFilter_identity:
  "BaseFilter_sendMetadata md = md
   \<and> BaseFilter_receiveMetadata md = md
   \<and> BaseFilter_sendMessage wo = wo
   \<and> BaseFilter_receiveMessage buf = buf
   \<and> BaseFilter_receiveTrailers st = st"
  by (simp add: BaseFilter_sendMetadata_def BaseFilter_receiveMetadata_def
      BaseFilter_sendMessage_def BaseFilter_receiveMessage_def BaseFilter_receiveTrailers_def
      async_return_same)

subsection \<open>Steps of a readable and of a duplex stream\<close>

lemma statusEmitted_perform [simp]: "statusEmitted (perform e s) = statusEmitted s"
  by (simp add: perform_def)

lemma statusOnce_perform [simp]: "statusOnce (perform e s) = statusOnce s"
  by (simp add: perform_def)

lemma errorListeners_perform [simp]: "errorListeners (perform e s) = errorListeners s"
  by (simp add: perform_def)

lemma log_data:
  "log (setUpReadableStream_data ds pr d s) =
     log s @ (case ds d of
                Inl e \<Rightarrow> [CancelWithStatus INTERNAL ''Failed to parse server response'']
              | Inr v \<Rightarrow> push v # (if pr (log s @ [push v]) then [] else [Pause]))"
  by (simp add: setUpReadableStream_data_def Let_def split: sum.split)

lemma flags_data [simp]:
  "statusEmitted (setUpReadableStream_data ds pr d s) = statusEmitted s"
  "statusOnce (setUpReadableStream_data ds pr d s) = statusOnce s"
  "errorListeners (setUpReadableStream_data ds pr d s) = errorListeners s"
  by (simp_all add: setUpReadableStream_data_def Let_def split: sum.split)

lemma log_end:
  "log (setUpReadableStream_end s) = log s @ (if statusEmitted s then [Push None] else [])"
  by (simp add: setUpReadableStream_end_def)

lemma flags_end [simp]:
  "statusEmitted (setUpReadableStream_end s) = statusEmitted s"
  "statusOnce (setUpReadableStream_end s) = (if statusEmitted s then statusOnce s else Suc (statusOnce s))"
  "errorListeners (setUpReadableStream_end s) = errorListeners s"
  by (simp_all add: setUpReadableStream_end_def)

lemma log_status:
  "log (status_listeners st s) =
     log s @ (if code st \<noteq> OK \<and> errorListeners s = 0 then [EmitError (ServiceError st)]
              else (if code st \<noteq> OK then [EmitError (ServiceError st)] else [])
                     @ EmitStatus st # replicate (statusOnce s) (Push None))"
  by (simp add: status_listeners_def once_status_def setUpReadableStream_status_def Let_def)

lemma flags_status [simp]:
  "statusEmitted (status_listeners st s) =
     (if code st \<noteq> OK \<and> errorListeners s = 0 then statusEmitted s else True)"
  "statusOnce (status_listeners st s) =
     (if code st \<noteq> OK \<and> errorListeners s = 0 then statusOnce s else 0)"
  "errorListeners (status_listeners st s) = errorListeners s"
  by (simp_all add: status_listeners_def once_status_def setUpReadableStream_status_def Let_def)

lemma log_cancel [simp]:
  "log (ClientDuplexStreamImpl_cancel s) = log s @ [CancelWithStatus CANCELLED ''Cancelled on client'']"
  "log (ClientReadableStreamImpl_cancel s) = log s @ [CancelWithStatus CANCELLED ''Cancelled on client'']"
  by (simp_all add: ClientDuplexStreamImpl_cancel_def ClientReadableStreamImpl_cancel_def)

lemma flags_cancel [simp]:
  "statusEmitted (ClientDuplexStreamImpl_cancel s) = statusEmitted s"
  "statusOnce (ClientDuplexStreamImpl_cancel s) = statusOnce s"
  by (simp_all add: ClientDuplexStreamImpl_cancel_def)

lemma listeners_changed [simp]:
  "log (on_error s) = log s" "log (off_error s) = log s"
  "statusEmitted (on_error s) = statusEmitted s" "statusEmitted (off_error s) = statusEmitted s"
  "statusOnce (on_error s) = statusOnce s" "statusOnce (off_error s) = statusOnce s"
  "errorListeners (on_error s) = Suc (errorListeners s)"
  "errorListeners (off_error s) = errorListeners s - 1"
  by (simp_all add: on_error_def off_error_def)

lemma flags_tryWrite [simp]:
  "statusEmitted (tryWrite nb sr chunk enc cb s) = statusEmitted s"
  "statusOnce (tryWrite nb sr chunk enc cb s) = statusOnce s"
  by (simp_all add: tryWrite_def split: sum.split)

lemma log_duplex_step:
  "log (ClientDuplexStreamImpl_step nb sr ds pr x s) = log s @ duplex_effects nb sr ds pr x s"
proof (cases x)
  case (DFromCall ev)
  then show ?thesis
    by (cases ev) (simp_all add: log_data log_end log_status)
next
  case (DWrite chunk enc cb)
  then show ?thesis
    by (simp add: ClientDuplexStreamImpl_write_def log_tryWrite)
qed (simp_all add: ClientDuplexStreamImpl_read_def ClientDuplexStreamImpl_final_def)

lemma statusEmitted_duplex_step:
  "statusEmitted (ClientDuplexStreamImpl_step nb sr ds pr x s) =
     (case x of
        DFromCall (OnStatus st) \<Rightarrow>
          (if code st \<noteq> OK \<and> errorListeners s = 0 then statusEmitted s else True)
      | _ \<Rightarrow> statusEmitted s)"
proof (cases x)
  case (DFromCall ev)
  then show ?thesis by (cases ev) simp_all
qed (simp_all add: ClientDuplexStreamImpl_read_def ClientDuplexStreamImpl_final_def
       ClientDuplexStreamImpl_write_def)

lemma readable_as_duplex:
  "ClientReadableStreamImpl_step ds pr x s = ClientDuplexStreamImpl_step nb sr ds pr (as_duplex x) s"
proof (cases x)
  case (RFromCall ev)
  then show ?thesis by (cases ev) simp_all
qed (simp_all add: ClientReadableStreamImpl_cancel_def ClientDuplexStreamImpl_cancel_def
       ClientReadableStreamImpl_read_def ClientDuplexStreamImpl_read_def)

lemma fold_readable_as_duplex:
  "fold (ClientReadableStreamImpl_step ds pr) ops s =
     fold (ClientDuplexStreamImpl_step nb sr ds pr) (map as_duplex ops) s"
  by (induction ops arbitrary: s) (simp_all add: readable_as_duplex [where nb = nb and sr = sr])

lemma log_readable_step:
  "log (ClientReadableStreamImpl_step ds pr x s) =
     log s @ duplex_effects nb sr ds pr (as_duplex x) s"
  by (simp add: readable_as_duplex [where nb = nb and sr = sr] log_duplex_step)

subsection \<open>End of stream\<close>

lemma eos_after_status_append:
  assumes "eos_after_status l"
    and "\<And>i. i < length es \<Longrightarrow> es ! i = Push None \<Longrightarrow>
           status_logged l \<or> (\<exists>j<i. \<exists>st. es ! j = EmitStatus st)"
  shows "eos_after_status (l @ es)"
  unfolding eos_after_status_def
proof (intro allI impI)
  fix i
  assume i: "i < length (l @ es)" and p: "(l @ es) ! i = Push None"
  show "\<exists>j<i. \<exists>st. (l @ es) ! j = EmitStatus st"
  proof (cases "i < length l")
    case True
    with p have "l ! i = Push None" by (simp add: nth_append)
    with assms(1) True obtain j st where "j < i" "l ! j = EmitStatus st"
      unfolding eos_after_status_def by blast
    with True have "(l @ es) ! j = EmitStatus st" by (simp add: nth_append)
    with \<open>j < i\<close> show ?thesis by blast
  next
    case False
    then have k: "i - length l < length es" using i by simp
    from False p have "es ! (i - length l) = Push None" by (simp add: nth_append)
    from assms(2) [OF k this] show ?thesis
    proof
      assume "status_logged l"
      then obtain st j where "j < length l" "l ! j = EmitStatus st"
        unfolding status_logged_def by (auto simp: in_set_conv_nth)
      then have "(l @ es) ! j = EmitStatus st" "j < i" using False by (simp_all add: nth_append)
      then show ?thesis by blast
    next
      assume "\<exists>j<i - length l. \<exists>st. es ! j = EmitStatus st"
      then obtain j st where j: "j < i - length l" "es ! j = EmitStatus st" by blast
      then have "(l @ es) ! (length l + j) = EmitStatus st" "length l + j < i" by simp_all
      then show ?thesis by blast
    qed
  qed
qed

lemma status_logged_append [simp]:
  "status_logged (l @ es) \<longleftrightarrow> status_logged l \<or> status_logged es"
  by (auto simp: status_logged_def)

lemma status_logged_simps [simp]:
  "status_logged [] = False"
  "status_logged (e # l) \<longleftrightarrow> (\<exists>st. e = EmitStatus st) \<or> status_logged l"
  "status_logged (replicate n (Push v)) = False"
  by (auto simp: status_logged_def)

lemma push_null: "push v = Push None \<longleftrightarrow> v = ReturnsNull"
  by (cases v) simp_all

lemma push_not_status [simp]: "push v \<noteq> EmitStatus st"
  by (cases v) simp_all

lemma push_not_resume [simp]: "push v \<noteq> Resume" "Resume \<noteq> push v"
  by (cases v, simp_all)+

lemma eos_inv_step:
  assumes "eos_inv s" and nn: "\<forall>d. ds d \<noteq> Inr ReturnsNull"
  shows "eos_inv (ClientDuplexStreamImpl_step nb sr ds pr x s)"
proof -
  let ?s' = "ClientDuplexStreamImpl_step nb sr ds pr x s"
  let ?es = "duplex_effects nb sr ds pr x s"
  have l: "log ?s' = log s @ ?es" by (rule log_duplex_step)
  from assms have a: "eos_after_status (log s)" and b: "statusEmitted s \<longleftrightarrow> status_logged (log s)"
    by (simp_all add: eos_inv_def)
  have "eos_after_status (log s @ ?es)"
  proof (rule eos_after_status_append [OF a])
    fix i assume i: "i < length ?es" and p: "?es ! i = Push None"
    show "status_logged (log s) \<or> (\<exists>j<i. \<exists>st. ?es ! j = EmitStatus st)"
    proof (cases x)
      case (DFromCall ev)
      show ?thesis
      proof (cases ev)
        case (OnMetadata md)
        with DFromCall i p show ?thesis by simp
      next
        case (OnData d)
        show ?thesis
        proof (cases "ds d")
          case (Inl e)
          with OnData DFromCall i p show ?thesis by simp
        next
          case (Inr v)
          with nn have "v \<noteq> ReturnsNull" by metis
          then have "push v \<noteq> (Push None :: ('a, 'b) effect)" by (simp add: push_null)
          with Inr OnData DFromCall i p show ?thesis
            by (auto simp: nth_Cons' split: if_splits)
        qed
      next
        case OnEnd
        with DFromCall i p b show ?thesis by (auto split: if_splits)
      next
        case (OnStatus st)
        show ?thesis
        proof (cases "code st = OK")
          case True
          with OnStatus DFromCall i p have "i \<noteq> 0" by (auto simp: nth_Cons' split: if_splits)
          moreover from True OnStatus DFromCall have "?es ! 0 = EmitStatus st" by simp
          ultimately show ?thesis by blast
        next
          case False
          show ?thesis
          proof (cases "errorListeners s = 0")
            case True
            with False OnStatus DFromCall i p show ?thesis by simp
          next
            case listener: False
            with False OnStatus DFromCall i p have "1 < i"
              by (auto simp: nth_Cons' split: if_splits)
            moreover from listener False OnStatus DFromCall have "?es ! 1 = EmitStatus st" by simp
            ultimately show ?thesis by blast
          qed
        qed
      qed
    next
      case (DWrite chunk enc cb)
      with i p show ?thesis by (cases "sr chunk") (auto simp: nth_Cons' split: if_splits)
    next
      case (DFinal cb)
      with i p show ?thesis by (auto simp: nth_Cons' split: if_splits)
    qed (use i p in simp_all)
  qed
  moreover have "statusEmitted ?s' \<longleftrightarrow> status_logged (log s @ ?es)"
    unfolding statusEmitted_duplex_step
  proof (cases x)
    case (DFromCall ev)
    then show "(case x of
        DFromCall (OnStatus st) \<Rightarrow>
          (if code st \<noteq> OK \<and> errorListeners s = 0 then statusEmitted s else True)
      | _ \<Rightarrow> statusEmitted s) \<longleftrightarrow> status_logged (log s @ ?es)"
      using b by (cases ev) (auto split: sum.splits if_splits)
  qed (use b in \<open>auto split: sum.splits\<close>)
  ultimately show ?thesis by (simp add: eos_inv_def l)
qed

lemma eos_inv_fold:
  assumes "\<forall>d. ds d \<noteq> Inr ReturnsNull"
  shows "eos_inv s \<Longrightarrow> eos_inv (fold (ClientDuplexStreamImpl_step nb sr ds pr) ops s)"
  by (induction ops arbitrary: s) (simp_all add: eos_inv_step assms)

lemma eos_inv_new:
  assumes "Push None \<notin> set l" and "\<forall>st. EmitStatus st \<notin> set l"
  shows "eos_inv (setUpReadableStream l)"
proof -
  have "eos_after_status (l @ [Pause])"
    using assms(1) by (auto simp: eos_after_status_def nth_append in_set_conv_nth split: if_splits)
  moreover have "\<not> status_logged (l @ [Pause])"
    using assms(2) by (simp add: status_logged_def)
  ultimately show ?thesis by (simp add: eos_inv_def setUpReadableStream_def)
qed

lemma eos_inv_fold_readable:
  assumes "\<forall>d. ds d \<noteq> Inr ReturnsNull"
  shows "eos_inv s \<Longrightarrow> eos_inv (fold (ClientReadableStreamImpl_step ds pr) ops s)"
  by (simp add: fold_readable_as_duplex [where nb = "\<lambda>_. None" and sr = "\<lambda>_::unit. Inl []"]
      eos_inv_fold assms)

subsection \<open>Deserialization failure\<close>

lemma unary_data_throws:
  assumes "deserialize data = Inl e"
  shows "responseMessage (handleUnaryResponse_data deserialize data u) = responseMessage u"
    and "log (handleUnaryResponse_data deserialize data u) =
           log u @ (if responseMessage u \<noteq> None
                    then [CancelWithStatus INTERNAL ''Too many responses received''] else [])
             @ [CancelWithStatus INTERNAL ''Failed to parse server response'']"
  using assms by (simp_all add: handleUnaryResponse_data_def perform_def)

text \<open>
  C5. When \<open>deserialize\<close> throws on an inbound message: on a readable and on a duplex
  stream the data listener does one thing, it cancels the Call with \<open>INTERNAL\<close> and
  \<open>Failed to parse server response\<close>, and pushes nothing; the unary response handler
  cancels the Call with that status as its last action and leaves the recorded response
  as it was (a surplus message is first answered as such).
\<close>

theorem deserialization_failure_cancels:
  assumes "deserialize data = Inl e"
  shows "log (ClientReadableStreamImpl_step deserialize pr (RFromCall (OnData data)) r) =
           log r @ [CancelWithStatus INTERNAL ''Failed to parse server response'']
       \<and> log (ClientDuplexStreamImpl_step nb sr deserialize pr (DFromCall (OnData data)) r) =
           log r @ [CancelWithStatus INTERNAL ''Failed to parse server response'']
       \<and> log (handleUnaryResponse_on deserialize callback (OnData data) u) =
           log u @ (if responseMessage u \<noteq> None
                    then [CancelWithStatus INTERNAL ''Too many responses received''] else [])
             @ [CancelWithStatus INTERNAL ''Failed to parse server response'']
       \<and> responseMessage (handleUnaryResponse_on deserialize callback (OnData data) u) =
           responseMessage u"
  using assms by (simp add: log_data unary_data_throws)

theorem deserialization_failure_cancels_witness:
  "sample_deserialize [] = Inl ''empty message''
   \<and> log (ClientReadableStreamImpl_step sample_deserialize (\<lambda>l. True) (RFromCall (OnData []))
            (ClientReadableStreamImpl ([] :: (nat, nat) effect list))) =
       [Pause, CancelWithStatus INTERNAL ''Failed to parse server response'']
   \<and> log (ClientDuplexStreamImpl_step (\<lambda>enc. None :: nat option) sample_serialize
            sample_deserialize (\<lambda>l. True) (DFromCall (OnData [])) (ClientDuplexStreamImpl [])) =
       [Pause, CancelWithStatus INTERNAL ''Failed to parse server response'']
   \<and> log (handleUnaryResponse_on sample_deserialize 7 (OnData [])
            (handleUnaryResponse ([] :: (nat, nat) effect list))) =
       [CancelWithStatus INTERNAL ''Failed to parse server response'']
   \<and> responseMessage (handleUnaryResponse_on sample_deserialize 7 (OnData [])
            (handleUnaryResponse ([] :: (nat, nat) effect list))) = None"
proof -
  have h: "sample_deserialize [] = Inl ''empty message''"
    by (simp add: sample_deserialize_def)
  show ?thesis
    using h deserialization_failure_cancels [where deserialize = sample_deserialize
        and data = "[]" and e = "''empty message''" and pr = "\<lambda>l. True"
        and r = "ClientReadableStreamImpl ([] :: (nat, nat) effect list)"
        and nb = "\<lambda>enc. None" and sr = sample_serialize and callback = 7
        and u = "handleUnaryResponse ([] :: (nat, nat) effect list)"]
    by (simp add: ClientReadableStreamImpl_def ClientDuplexStreamImpl_def
        setUpReadableStream_def handleUnaryResponse_def)
qed

subsection \<open>End of stream after the status\<close>

text \<open>
  C7, as the code has it. On a readable and on a duplex stream built by a dispatch method
  (the log before holds no push and no status event) and with a deserialization function
  that never returns \<open>null\<close>, after any sequence of operations: every \<open>push(null)\<close> in
  the log comes after a \<open>status\<close> event that the status listener emitted on the stream,
  and \<open>statusEmitted\<close> holds exactly when one was emitted. The end listener pushes \<open>null\<close>
  at once when \<open>statusEmitted\<close> holds and does nothing visible otherwise. In that case the
  next status whose listener runs to its end (a status \<open>OK\<close>, or any status on a stream
  with a listener for \<open>error\<close>) is followed, after its \<open>status\<close> event, by the deferred
  \<open>push(null)\<close>; a status that is not \<open>OK\<close> on a stream without a listener for \<open>error\<close>
  makes the status listener throw, and the deferred \<open>push(null)\<close> stays pending.
\<close>

theorem end_of_stream_after_status:
  fixes l :: "('n, 'r) effect list"
    and ds :: "buffer \<Rightarrow> js_error + 'r returned" and pr :: "('n, 'r) effect list \<Rightarrow> bool"
    and nb :: "string \<Rightarrow> 'n option" and sr :: "'q \<Rightarrow> js_error + buffer"
    and rops :: "readable_op list" and ops :: "'q duplex_op list"
  assumes "Push None \<notin> set l" and "\<forall>st. EmitStatus st \<notin> set l"
    and "\<forall>d. ds d \<noteq> Inr ReturnsNull"
  defines "R \<equiv> readable_after ds pr l rops"
    and "D \<equiv> duplex_after nb sr ds pr l ops"
  shows "(\<forall>i<length (log R). log R ! i = Push None \<longrightarrow> (\<exists>j<i. \<exists>st. log R ! j = EmitStatus st))
       \<and> (\<forall>i<length (log D). log D ! i = Push None \<longrightarrow> (\<exists>j<i. \<exists>st. log D ! j = EmitStatus st))
       \<and> (statusEmitted R \<longleftrightarrow> (\<exists>st. EmitStatus st \<in> set (log R)))
       \<and> (statusEmitted D \<longleftrightarrow> (\<exists>st. EmitStatus st \<in> set (log D)))
       \<and> log (ClientReadableStreamImpl_step ds pr (RFromCall OnEnd) R) =
           log R @ (if statusEmitted R then [Push None] else [])
       \<and> log (ClientDuplexStreamImpl_step nb sr ds pr (DFromCall OnEnd) D) =
           log D @ (if statusEmitted D then [Push None] else [])
       \<and> (\<not> statusEmitted R \<and> (code st' = OK \<or> 0 < errorListeners R) \<longrightarrow>
            log (ClientReadableStreamImpl_step ds pr (RFromCall (OnStatus st'))
                  (ClientReadableStreamImpl_step ds pr (RFromCall OnEnd) R)) =
              log R @ (if code st' \<noteq> OK then [EmitError (ServiceError st')] else [])
                @ EmitStatus st' # replicate (Suc (statusOnce R)) (Push None))
       \<and> (\<not> statusEmitted D \<and> (code st' = OK \<or> 0 < errorListeners D) \<longrightarrow>
            log (ClientDuplexStreamImpl_step nb sr ds pr (DFromCall (OnStatus st'))
                  (ClientDuplexStreamImpl_step nb sr ds pr (DFromCall OnEnd) D)) =
              log D @ (if code st' \<noteq> OK then [EmitError (ServiceError st')] else [])
                @ EmitStatus st' # replicate (Suc (statusOnce D)) (Push None))
       \<and> (\<not> statusEmitted R \<and> code st' \<noteq> OK \<and> errorListeners R = 0 \<longrightarrow>
            log (ClientReadableStreamImpl_step ds pr (RFromCall (OnStatus st'))
                  (ClientReadableStreamImpl_step ds pr (RFromCall OnEnd) R)) =
              log R @ [EmitError (ServiceError st')]
            \<and> \<not> statusEmitted (ClientReadableStreamImpl_step ds pr (RFromCall (OnStatus st'))
                  (ClientReadableStreamImpl_step ds pr (RFromCall OnEnd) R))
            \<and> statusOnce (ClientReadableStreamImpl_step ds pr (RFromCall (OnStatus st'))
                  (ClientReadableStreamImpl_step ds pr (RFromCall OnEnd) R)) = Suc (statusOnce R))
       \<and> (\<not> statusEmitted D \<and> code st' \<noteq> OK \<and> errorListeners D = 0 \<longrightarrow>
            log (ClientDuplexStreamImpl_step nb sr ds pr (DFromCall (OnStatus st'))
                  (ClientDuplexStreamImpl_step nb sr ds pr (DFromCall OnEnd) D)) =
              log D @ [EmitError (ServiceError st')]
            \<and> \<not> statusEmitted (ClientDuplexStreamImpl_step nb sr ds pr (DFromCall (OnStatus st'))
                  (ClientDuplexStreamImpl_step nb sr ds pr (DFromCall OnEnd) D))
            \<and> statusOnce (ClientDuplexStreamImpl_step nb sr ds pr (DFromCall (OnStatus st'))
                  (ClientDuplexStreamImpl_step nb sr ds pr (DFromCall OnEnd) D)) = Suc (statusOnce D))"
proof -
  have "eos_inv (setUpReadableStream l)"
    using assms(1,2) by (rule eos_inv_new)
  then have r: "eos_inv R" and d: "eos_inv D"
    using assms(3)
    by (simp_all add: R_def D_def readable_after_def duplex_after_def
        ClientReadableStreamImpl_def ClientDuplexStreamImpl_def eos_inv_fold eos_inv_fold_readable)
  have 1: "\<forall>i<length (log R). log R ! i = Push None \<longrightarrow> (\<exists>j<i. \<exists>st. log R ! j = EmitStatus st)"
    using r by (simp add: eos_inv_def eos_after_status_def)
  have 2: "\<forall>i<length (log D). log D ! i = Push None \<longrightarrow> (\<exists>j<i. \<exists>st. log D ! j = EmitStatus st)"
    using d by (simp add: eos_inv_def eos_after_status_def)
  have 3: "statusEmitted R \<longleftrightarrow> (\<exists>st. EmitStatus st \<in> set (log R))"
    using r by (simp add: eos_inv_def status_logged_def)
  have 4: "statusEmitted D \<longleftrightarrow> (\<exists>st. EmitStatus st \<in> set (log D))"
    using d by (simp add: eos_inv_def status_logged_def)
  have 5: "log (ClientReadableStreamImpl_step ds pr (RFromCall OnEnd) R) =
             log R @ (if statusEmitted R then [Push None] else [])"
    by (simp add: log_end)
  have 6: "log (ClientDuplexStreamImpl_step nb sr ds pr (DFromCall OnEnd) D) =
             log D @ (if statusEmitted D then [Push None] else [])"
    by (simp add: log_end)
  have 7: "\<not> statusEmitted R \<and> (code st' = OK \<or> 0 < errorListeners R) \<longrightarrow>
            log (ClientReadableStreamImpl_step ds pr (RFromCall (OnStatus st'))
                  (ClientReadableStreamImpl_step ds pr (RFromCall OnEnd) R)) =
              log R @ (if code st' \<noteq> OK then [EmitError (ServiceError st')] else [])
                @ EmitStatus st' # replicate (Suc (statusOnce R)) (Push None)"
    by (auto simp: log_status log_end)
  have 8: "\<not> statusEmitted D \<and> (code st' = OK \<or> 0 < errorListeners D) \<longrightarrow>
            log (ClientDuplexStreamImpl_step nb sr ds pr (DFromCall (OnStatus st'))
                  (ClientDuplexStreamImpl_step nb sr ds pr (DFromCall OnEnd) D)) =
              log D @ (if code st' \<noteq> OK then [EmitError (ServiceError st')] else [])
                @ EmitStatus st' # replicate (Suc (statusOnce D)) (Push None)"
    by (auto simp: log_status log_end)
  have 9: "\<not> statusEmitted R \<and> code st' \<noteq> OK \<and> errorListeners R = 0 \<longrightarrow>
            log (ClientReadableStreamImpl_step ds pr (RFromCall (OnStatus st'))
                  (ClientReadableStreamImpl_step ds pr (RFromCall OnEnd) R)) =
              log R @ [EmitError (ServiceError st')]
            \<and> \<not> statusEmitted (ClientReadableStreamImpl_step ds pr (RFromCall (OnStatus st'))
                  (ClientReadableStreamImpl_step ds pr (RFromCall OnEnd) R))
            \<and> statusOnce (ClientReadableStreamImpl_step ds pr (RFromCall (OnStatus st'))
                  (ClientReadableStreamImpl_step ds pr (RFromCall OnEnd) R)) = Suc (statusOnce R)"
    by (simp add: log_status log_end)
  have 10: "\<not> statusEmitted D \<and> code st' \<noteq> OK \<and> errorListeners D = 0 \<longrightarrow>
            log (ClientDuplexStreamImpl_step nb sr ds pr (DFromCall (OnStatus st'))
                  (ClientDuplexStreamImpl_step nb sr ds pr (DFromCall OnEnd) D)) =
              log D @ [EmitError (ServiceError st')]
            \<and> \<not> statusEmitted (ClientDuplexStreamImpl_step nb sr ds pr (DFromCall (OnStatus st'))
                  (ClientDuplexStreamImpl_step nb sr ds pr (DFromCall OnEnd) D))
            \<and> statusOnce (ClientDuplexStreamImpl_step nb sr ds pr (DFromCall (OnStatus st'))
                  (ClientDuplexStreamImpl_step nb sr ds pr (DFromCall OnEnd) D)) = Suc (statusOnce D)"
    by (simp add: log_status log_end)
  show ?thesis by (intro conjI 1 2 3 4 5 6 7 8 9 10)
qed

theorem end_of_stream_after_status_witness:
  "log (readable_after sample_decode (\<lambda>l. True) ([] :: (nat, nat) effect list)
        [RFromCall (OnMetadata []), RRead, RFromCall (OnData [1]), RFromCall OnEnd,
         RFromCall (OnStatus (sample_status OK))]) ! 5 = Push None
   \<and> (\<exists>j<5. \<exists>st.
        log (readable_after sample_decode (\<lambda>l. True) ([] :: (nat, nat) effect list)
          [RFromCall (OnMetadata []), RRead, RFromCall (OnData [1]), RFromCall OnEnd,
           RFromCall (OnStatus (sample_status OK))]) ! j = EmitStatus st)
   \<and> log (duplex_after (\<lambda>enc. None :: nat option) sample_serialize sample_decode
        (\<lambda>l. True) []
        [DOnError, DFromCall (OnStatus (sample_status CANCELLED)), DFromCall OnEnd]) ! 3 = Push None
   \<and> (\<exists>j<3. \<exists>st.
        log (duplex_after (\<lambda>enc. None :: nat option) sample_serialize sample_decode
          (\<lambda>l. True) []
          [DOnError, DFromCall (OnStatus (sample_status CANCELLED)), DFromCall OnEnd]) ! j =
        EmitStatus st)
   \<and> log (ClientReadableStreamImpl_step sample_decode (\<lambda>l. True)
          (RFromCall (OnStatus (sample_status OK)))
          (ClientReadableStreamImpl_step sample_decode (\<lambda>l. True) (RFromCall OnEnd)
            (readable_after sample_decode (\<lambda>l. True) ([] :: (nat, nat) effect list)
              [RFromCall (OnMetadata []), RRead, RFromCall (OnData [1])]))) =
       [Pause, EmitMetadata [], Resume, Push (Some 1), EmitStatus (sample_status OK), Push None]
   \<and> log (ClientReadableStreamImpl_step sample_decode (\<lambda>l. True)
          (RFromCall (OnStatus (sample_status CANCELLED)))
          (ClientReadableStreamImpl_step sample_decode (\<lambda>l. True) (RFromCall OnEnd)
            (readable_after sample_decode (\<lambda>l. True) ([] :: (nat, nat) effect list)
              [RFromCall (OnMetadata []), RRead, RFromCall (OnData [1])]))) =
       [Pause, EmitMetadata [], Resume, Push (Some 1),
        EmitError (ServiceError (sample_status CANCELLED))]"
proof -
  let ?l = "[] :: (nat, nat) effect list"
  let ?ds = sample_decode and ?pr = "\<lambda>l :: (nat, nat) effect list. True"
  let ?nb = "\<lambda>enc :: string. None :: nat option"
  let ?rops = "[RFromCall (OnMetadata []), RRead, RFromCall (OnData [1]), RFromCall OnEnd,
         RFromCall (OnStatus (sample_status OK))]"
  let ?rops2 = "[RFromCall (OnMetadata []), RRead, RFromCall (OnData [1])]"
  let ?ops = "[DOnError, DFromCall (OnStatus (sample_status CANCELLED)), DFromCall OnEnd]
                :: nat duplex_op list"
  let ?R = "readable_after ?ds ?pr ?l ?rops"
  let ?R2 = "readable_after ?ds ?pr ?l ?rops2"
  let ?D = "duplex_after ?nb sample_serialize ?ds ?pr ?l ?ops"
  have h1: "Push None \<notin> set ?l" and h2: "\<forall>st. EmitStatus st \<notin> set ?l"
    by simp_all
  have h3: "\<forall>d. ?ds d \<noteq> Inr ReturnsNull"
    by (simp add: sample_decode_def)
  have c: "code (sample_status OK) = OK" "code (sample_status CANCELLED) \<noteq> OK"
    by (simp_all add: sample_status_def)
  have R: "log ?R = [Pause, EmitMetadata [], Resume, Push (Some 1),
                     EmitStatus (sample_status OK), Push None]"
    by (simp add: readable_after_def ClientReadableStreamImpl_def setUpReadableStream_def
        ClientReadableStreamImpl_read_def log_data log_end log_status sample_decode_def c)
  have D: "log ?D = [Pause, EmitError (ServiceError (sample_status CANCELLED)),
                     EmitStatus (sample_status CANCELLED), Push None]"
    by (simp add: duplex_after_def ClientDuplexStreamImpl_def setUpReadableStream_def
        log_end log_status c)
  have R2: "log ?R2 = [Pause, EmitMetadata [], Resume, Push (Some 1)]"
    "\<not> statusEmitted ?R2" "statusOnce ?R2 = 0" "errorListeners ?R2 = 0"
    by (simp_all add: readable_after_def ClientReadableStreamImpl_def setUpReadableStream_def
        ClientReadableStreamImpl_read_def log_data sample_decode_def)
  note t = end_of_stream_after_status [where l = ?l and ds = ?ds
      and pr = ?pr and nb = ?nb and sr = sample_serialize
      and rops = ?rops and ops = ?ops and st' = "sample_status OK", OF h1 h2 h3]
  note t2 = end_of_stream_after_status [where l = ?l and ds = ?ds
      and pr = ?pr and nb = ?nb and sr = sample_serialize
      and rops = ?rops2 and ops = ?ops and st' = "sample_status OK", OF h1 h2 h3]
  note t3 = end_of_stream_after_status [where l = ?l and ds = ?ds
      and pr = ?pr and nb = ?nb and sr = sample_serialize
      and rops = ?rops2 and ops = ?ops and st' = "sample_status CANCELLED", OF h1 h2 h3]
  from t have a: "\<forall>i<length (log ?R). log ?R ! i = Push None \<longrightarrow>
      (\<exists>j<i. \<exists>st. log ?R ! j = EmitStatus st)"
    by (elim conjE)
  from t have b: "\<forall>i<length (log ?D). log ?D ! i = Push None \<longrightarrow>
      (\<exists>j<i. \<exists>st. log ?D ! j = EmitStatus st)"
    by (elim conjE)
  from t2 have "\<not> statusEmitted ?R2 \<and> (code (sample_status OK) = OK \<or> 0 < errorListeners ?R2) \<longrightarrow>
      log (ClientReadableStreamImpl_step ?ds ?pr (RFromCall (OnStatus (sample_status OK)))
            (ClientReadableStreamImpl_step ?ds ?pr (RFromCall OnEnd) ?R2)) =
        log ?R2 @ (if code (sample_status OK) \<noteq> OK
                   then [EmitError (ServiceError (sample_status OK))] else [])
          @ EmitStatus (sample_status OK) # replicate (Suc (statusOnce ?R2)) (Push None)"
    by (elim conjE)
  with R2 c have 5: "log (ClientReadableStreamImpl_step ?ds ?pr
          (RFromCall (OnStatus (sample_status OK)))
          (ClientReadableStreamImpl_step ?ds ?pr (RFromCall OnEnd) ?R2)) =
       [Pause, EmitMetadata [], Resume, Push (Some 1), EmitStatus (sample_status OK), Push None]"
    by simp
  from t3 have "\<not> statusEmitted ?R2 \<and> code (sample_status CANCELLED) \<noteq> OK
        \<and> errorListeners ?R2 = 0 \<longrightarrow>
      log (ClientReadableStreamImpl_step ?ds ?pr (RFromCall (OnStatus (sample_status CANCELLED)))
            (ClientReadableStreamImpl_step ?ds ?pr (RFromCall OnEnd) ?R2)) =
        log ?R2 @ [EmitError (ServiceError (sample_status CANCELLED))]
      \<and> \<not> statusEmitted (ClientReadableStreamImpl_step ?ds ?pr
            (RFromCall (OnStatus (sample_status CANCELLED)))
            (ClientReadableStreamImpl_step ?ds ?pr (RFromCall OnEnd) ?R2))
      \<and> statusOnce (ClientReadableStreamImpl_step ?ds ?pr
            (RFromCall (OnStatus (sample_status CANCELLED)))
            (ClientReadableStreamImpl_step ?ds ?pr (RFromCall OnEnd) ?R2)) = Suc (statusOnce ?R2)"
    by (elim conjE)
  with R2 c have 6: "log (ClientReadableStreamImpl_step ?ds ?pr
          (RFromCall (OnStatus (sample_status CANCELLED)))
          (ClientReadableStreamImpl_step ?ds ?pr (RFromCall OnEnd) ?R2)) =
       [Pause, EmitMetadata [], Resume, Push (Some 1),
        EmitError (ServiceError (sample_status CANCELLED))]"
    by simp
  have 1: "log ?R ! 5 = Push None" by (simp add: R)
  have 2: "\<exists>j<5. \<exists>st. log ?R ! j = EmitStatus st"
    by (rule a [rule_format]) (simp_all add: R)
  have 3: "log ?D ! 3 = Push None" by (simp add: D)
  have 4: "\<exists>j<3. \<exists>st. log ?D ! j = EmitStatus st"
    by (rule b [rule_format]) (simp_all add: D)
  show ?thesis by (intro conjI 1 2 3 4 5 6)
qed

text \<open>
  C7 as stated fails where it says that \<open>push(null)\<close> comes only after the status: a
  message that deserializes to \<open>null\<close> is pushed as such by the data listener, before any
  status event.
\<close>

theorem null_message_counterexample:
  "sample_deserialize [0] = Inr ReturnsNull
   \<and> log (readable_after sample_deserialize (\<lambda>l. True) ([] :: (nat, nat) effect list)
        [RFromCall (OnMetadata []), RRead, RFromCall (OnData [0])]) =
     [Pause, EmitMetadata [], Resume, Push None]"
  by (simp add: readable_after_def ClientReadableStreamImpl_def setUpReadableStream_def
      ClientReadableStreamImpl_read_def log_data sample_deserialize_def)

subsection \<open>Errors emitted on a stream\<close>

lemma emitted_errors_simps [simp]:
  "emitted_errors [] = []"
  "emitted_errors (e # l) = error_event e @ emitted_errors l"
  "emitted_errors (l @ m) = emitted_errors l @ emitted_errors m"
  by (simp_all add: emitted_errors_def)

lemma emitted_errors_replicate_push [simp]:
  "emitted_errors (replicate n (Push v)) = []"
  by (induction n) simp_all

lemma error_event_push [simp]: "error_event (push v) = []"
  by (cases v) simp_all

lemma emitted_errors_effects:
  "emitted_errors (duplex_effects nb sr ds pr x s) = errors_of_op sr x"
proof (cases x)
  case (DFromCall ev)
  then show ?thesis
    by (cases ev) (simp_all split: sum.split)
qed (simp_all split: sum.split)

lemma emitted_errors_fold_duplex:
  "emitted_errors (log (fold (ClientDuplexStreamImpl_step nb sr ds pr) ops s)) =
     emitted_errors (log s) @ concat (map (errors_of_op sr) ops)"
  by (induction ops arbitrary: s) (simp_all add: log_duplex_step emitted_errors_effects)

lemma emitted_errors_fold_readable:
  "emitted_errors (log (fold (ClientReadableStreamImpl_step ds pr) ops s)) =
     emitted_errors (log s) @
       [StatusError (ServiceError st). RFromCall (OnStatus st) \<leftarrow> ops, code st \<noteq> OK]"
proof (induction ops arbitrary: s)
  case Nil
  show ?case by simp
next
  case (Cons x ops)
  have "emitted_errors (log (ClientReadableStreamImpl_step ds pr x s)) =
          emitted_errors (log s) @
            (case x of
               RFromCall (OnStatus st) \<Rightarrow>
                 if code st \<noteq> OK then [StatusError (ServiceError st)] else []
             | _ \<Rightarrow> [])"
    by (simp add: log_readable_step [where nb = "\<lambda>_. None" and sr = "\<lambda>_::unit. Inl []"]
        emitted_errors_effects split: readable_op.split call_event.split)
  then show ?case
    by (simp add: Cons.IH split: readable_op.split call_event.split)
qed

text \<open>
  C4, as the code has it. On a readable and on a duplex stream the status listener emits,
  for a status whose code is not \<open>OK\<close>, an \<open>error\<close> event carrying the ServiceError made
  of the status (its code, details and metadata, with the details as message). When the
  stream has a listener for \<open>error\<close>, the \<open>status\<close> event follows it; when it has none,
  the emitter throws and no \<open>status\<close> event is emitted. For a status \<open>OK\<close> the listener
  emits the \<open>status\<close> event alone. Over any sequence of operations, the \<open>error\<close> events
  that the status listener emits and that a failed write brings about through its write
  callback are: on a readable stream, one for each status whose code is not \<open>OK\<close>; on a
  duplex stream these and, for each write whose serialization fails, the error handed to
  the write callback, whatever the status.
\<close>

theorem error_before_status:
  "log (ClientReadableStreamImpl_step ds pr (RFromCall (OnStatus st)) r) =
     log r @ (if code st = OK then EmitStatus st # replicate (statusOnce r) (Push None)
              else if errorListeners r = 0 then [EmitError (ServiceError st)]
              else EmitError (ServiceError st) # EmitStatus st
                     # replicate (statusOnce r) (Push None))
   \<and> log (ClientDuplexStreamImpl_step nb sr ds pr (DFromCall (OnStatus st)) r) =
     log r @ (if code st = OK then EmitStatus st # replicate (statusOnce r) (Push None)
              else if errorListeners r = 0 then [EmitError (ServiceError st)]
              else EmitError (ServiceError st) # EmitStatus st
                     # replicate (statusOnce r) (Push None))
   \<and> code (ServiceError st) = code st \<and> details (ServiceError st) = details st
   \<and> metadata (ServiceError st) = metadata st \<and> message (ServiceError st) = details st
   \<and> emitted_errors (log (readable_after ds pr l rops)) =
       emitted_errors l @
         [StatusError (ServiceError st). RFromCall (OnStatus st) \<leftarrow> rops, code st \<noteq> OK]
   \<and> emitted_errors (log (duplex_after nb sr ds pr l ops)) =
       emitted_errors l @ concat (map (errors_of_op sr) ops)"
proof -
  have new: "emitted_errors (log (setUpReadableStream l)) = emitted_errors l"
    by (simp add: setUpReadableStream_def)
  have r: "emitted_errors (log (readable_after ds pr l rops)) =
       emitted_errors l @
         [StatusError (ServiceError st). RFromCall (OnStatus st) \<leftarrow> rops, code st \<noteq> OK]"
    by (simp add: readable_after_def emitted_errors_fold_readable ClientReadableStreamImpl_def new)
  have d: "emitted_errors (log (duplex_after nb sr ds pr l ops)) =
       emitted_errors l @ concat (map (errors_of_op sr) ops)"
    by (simp add: duplex_after_def emitted_errors_fold_duplex ClientDuplexStreamImpl_def new)
  have s1: "log (ClientReadableStreamImpl_step ds pr (RFromCall (OnStatus st)) r) =
     log r @ (if code st = OK then EmitStatus st # replicate (statusOnce r) (Push None)
              else if errorListeners r = 0 then [EmitError (ServiceError st)]
              else EmitError (ServiceError st) # EmitStatus st
                     # replicate (statusOnce r) (Push None))"
    by (simp add: log_status)
  have s2: "log (ClientDuplexStreamImpl_step nb sr ds pr (DFromCall (OnStatus st)) r) =
     log r @ (if code st = OK then EmitStatus st # replicate (statusOnce r) (Push None)
              else if errorListeners r = 0 then [EmitError (ServiceError st)]
              else EmitError (ServiceError st) # EmitStatus st
                     # replicate (statusOnce r) (Push None))"
    by (simp add: log_status)
  have f: "code (ServiceError st) = code st" "details (ServiceError st) = details st"
    "metadata (ServiceError st) = metadata st" "message (ServiceError st) = details st"
    by (simp_all add: ServiceError_def)
  show ?thesis by (intro conjI s1 s2 f r d)
qed

theorem error_before_status_witness:
  "log (ClientReadableStreamImpl_step sample_deserialize (\<lambda>l. True)
          (RFromCall (OnStatus (sample_status UNAVAILABLE)))
          (readable_after sample_deserialize (\<lambda>l. True) ([] :: (nat, nat) effect list) [])) =
     [Pause, EmitError (ServiceError (sample_status UNAVAILABLE))]
   \<and> log (ClientReadableStreamImpl_step sample_deserialize (\<lambda>l. True)
          (RFromCall (OnStatus (sample_status UNAVAILABLE)))
          (readable_after sample_deserialize (\<lambda>l. True) ([] :: (nat, nat) effect list)
             [ROnError])) =
     [Pause, EmitError (ServiceError (sample_status UNAVAILABLE)),
      EmitStatus (sample_status UNAVAILABLE)]
   \<and> emitted_errors (log (readable_after sample_deserialize (\<lambda>l. True) ([] :: (nat, nat) effect list)
        [ROnError, RFromCall (OnMetadata []), RRead, RFromCall (OnData [1]), RFromCall OnEnd,
         RFromCall (OnStatus (sample_status OK))])) = []
   \<and> emitted_errors (log (duplex_after (\<lambda>enc. None :: nat option) sample_serialize
        sample_deserialize (\<lambda>l. True) []
        [DOnError, DFromCall (OnMetadata []), DWrite 3 ''1'' 7, DFromCall OnEnd,
         DFromCall (OnStatus (sample_status INTERNAL))])) =
     [WriteError ''boom'', StatusError (ServiceError (sample_status INTERNAL))]"
proof -
  let ?l = "[] :: (nat, nat) effect list"
  let ?ds = sample_deserialize and ?pr = "\<lambda>l :: (nat, nat) effect list. True"
  let ?nb = "\<lambda>enc :: string. None :: nat option"
  let ?st = "sample_status UNAVAILABLE"
  let ?rops = "[ROnError, RFromCall (OnMetadata []), RRead, RFromCall (OnData [1]), RFromCall OnEnd,
         RFromCall (OnStatus (sample_status OK))]"
  let ?ops = "[DOnError, DFromCall (OnMetadata []), DWrite (3::nat) ''1'' 7, DFromCall OnEnd,
         DFromCall (OnStatus (sample_status INTERNAL))]"
  have r0: "errorListeners (readable_after ?ds ?pr ?l []) = 0"
    "statusOnce (readable_after ?ds ?pr ?l []) = 0"
    "log (readable_after ?ds ?pr ?l []) = [Pause]"
    by (simp_all add: readable_after_def ClientReadableStreamImpl_def setUpReadableStream_def)
  have r1: "errorListeners (readable_after ?ds ?pr ?l [ROnError]) = 1"
    "statusOnce (readable_after ?ds ?pr ?l [ROnError]) = 0"
    "log (readable_after ?ds ?pr ?l [ROnError]) = [Pause]"
    by (simp_all add: readable_after_def ClientReadableStreamImpl_def setUpReadableStream_def)
  have c: "code ?st \<noteq> OK" "code (sample_status OK) = OK" "code (sample_status INTERNAL) \<noteq> OK"
    by (simp_all add: sample_status_def)
  have 1: "log (ClientReadableStreamImpl_step ?ds ?pr (RFromCall (OnStatus ?st))
            (readable_after ?ds ?pr ?l [])) = [Pause, EmitError (ServiceError ?st)]"
    using error_before_status [where ds = ?ds and pr = ?pr and st = ?st
        and r = "readable_after ?ds ?pr ?l []" and nb = ?nb and sr = sample_serialize
        and l = ?l and rops = ?rops and ops = ?ops] r0 c
    by simp
  have 2: "log (ClientReadableStreamImpl_step ?ds ?pr (RFromCall (OnStatus ?st))
            (readable_after ?ds ?pr ?l [ROnError])) =
          [Pause, EmitError (ServiceError ?st), EmitStatus ?st]"
    using error_before_status [where ds = ?ds and pr = ?pr and st = ?st
        and r = "readable_after ?ds ?pr ?l [ROnError]" and nb = ?nb and sr = sample_serialize
        and l = ?l and rops = ?rops and ops = ?ops] r1 c
    by simp
  note t = error_before_status [where ds = ?ds and pr = ?pr and st = ?st
        and r = "readable_after ?ds ?pr ?l []" and nb = ?nb and sr = sample_serialize
        and l = ?l and rops = ?rops and ops = ?ops]
  from t have "emitted_errors (log (readable_after ?ds ?pr ?l ?rops)) =
       emitted_errors ?l @
         [StatusError (ServiceError st). RFromCall (OnStatus st) \<leftarrow> ?rops, code st \<noteq> OK]"
    by (elim conjE)
  with c have 3: "emitted_errors (log (readable_after ?ds ?pr ?l ?rops)) = []"
    by simp
  from t have "emitted_errors (log (duplex_after ?nb sample_serialize ?ds ?pr ?l ?ops)) =
       emitted_errors ?l @ concat (map (errors_of_op sample_serialize) ?ops)"
    by (elim conjE)
  with c have 4: "emitted_errors (log (duplex_after ?nb sample_serialize ?ds ?pr ?l ?ops)) =
     [WriteError ''boom'', StatusError (ServiceError (sample_status INTERNAL))]"
    by (simp add: sample_serialize_def)
  show ?thesis by (intro conjI 1 2 3 4)
qed

text \<open>
  C4 as stated fails where it says that a stream whose terminal status is \<open>OK\<close> never
  emits \<open>error\<close>: on a duplex stream, a write after that status whose serialization
  fails hands the thrown error to the write callback, and the stream emits it.
\<close>

theorem error_after_OK_status_counterexample:
  "log (duplex_after (\<lambda>enc. None :: nat option) sample_serialize sample_deserialize
          (\<lambda>l. True) []
          [DOnError, DFromCall (OnMetadata []), DFromCall OnEnd,
           DFromCall (OnStatus (sample_status OK)), DWrite 3 ''1'' 7]) =
     [Pause, EmitMetadata [], EmitStatus (sample_status OK), Push None,
      CancelWithStatus INTERNAL ''Serialization failure'', WriteCallback 7 (Some ''boom'')]
   \<and> emitted_errors (log (duplex_after (\<lambda>enc. None :: nat option) sample_serialize
          sample_deserialize (\<lambda>l. True) []
          [DOnError, DFromCall (OnMetadata []), DFromCall OnEnd,
           DFromCall (OnStatus (sample_status OK)), DWrite 3 ''1'' 7])) =
     [WriteError ''boom'']"
  by (simp add: duplex_after_def ClientDuplexStreamImpl_def setUpReadableStream_def
      log_duplex_step sample_status_def sample_serialize_def statusEmitted_duplex_step
      setUpReadableStream_end_def perform_def status_listeners_def
      setUpReadableStream_status_def once_status_def ClientDuplexStreamImpl_write_def
      tryWrite_def on_error_def)

subsection \<open>Pausing and resuming the Call\<close>

lemma call_paused_snoc [simp]:
  "call_paused (l @ [e]) = (case e of Pause \<Rightarrow> True | Resume \<Rightarrow> False | _ \<Rightarrow> call_paused l)"
  by (cases e) (simp_all add: call_paused_def)

lemma call_paused_append:
  "call_paused l \<Longrightarrow> Resume \<notin> set es \<Longrightarrow> call_paused (l @ es)"
proof (induction es rule: rev_induct)
  case Nil
  then show ?case by simp
next
  case (snoc e es)
  then show ?case by (cases e) (simp_all flip: append_assoc)
qed

lemma effects_no_resume:
  "x \<noteq> DRead \<Longrightarrow> Resume \<notin> set (duplex_effects nb sr ds pr x s)"
proof (cases x)
  case (DFromCall ev)
  then show ?thesis by (cases ev) (simp_all split: sum.split)
qed (simp_all split: sum.split)

lemma effects_no_message:
  "\<forall>d. x \<noteq> DFromCall (OnData d) \<Longrightarrow> Push (Some m) \<notin> set (duplex_effects nb sr ds pr x s)"
proof (cases x)
  case (DFromCall ev)
  assume "\<forall>d. x \<noteq> DFromCall (OnData d)"
  with DFromCall show ?thesis by (cases ev) simp_all
qed (simp_all split: sum.split)

lemma count_list_replicate_other [simp]:
  "x \<noteq> y \<Longrightarrow> count_list (replicate n y) x = 0"
  by (induction n) simp_all

lemma count_resume_effects:
  "count_list (duplex_effects nb sr ds pr x s) Resume = (if x = DRead then 1 else 0)"
proof (cases x)
  case (DFromCall ev)
  then show ?thesis by (cases ev) (simp_all split: sum.split)
qed (simp_all split: sum.split)

lemma count_resume_fold_duplex:
  "count_list (log (fold (ClientDuplexStreamImpl_step nb sr ds pr) ops s)) Resume =
     count_list (log s) Resume + count_list ops DRead"
  by (induction ops arbitrary: s) (simp_all add: log_duplex_step count_resume_effects)

lemma count_resume_fold_readable:
  "count_list (log (fold (ClientReadableStreamImpl_step ds pr) ops s)) Resume =
     count_list (log s) Resume + count_list ops RRead"
proof (induction ops arbitrary: s)
  case Nil
  show ?case by simp
next
  case (Cons x ops)
  have "as_duplex x = (DRead :: unit duplex_op) \<longleftrightarrow> x = RRead"
    by (cases x) simp_all
  then show ?case
    by (simp add: Cons.IH count_resume_effects
        log_readable_step [where nb = "\<lambda>_. None" and sr = "\<lambda>_::unit. Inl []"])
qed

lemma paused_no_data:
  assumes "call_paused (log s)"
    and "duplex_respects_pause nb sr ds pr ops s"
    and "DRead \<notin> set ops"
  shows "(\<forall>d. DFromCall (OnData d) \<notin> set ops)
       \<and> call_paused (log (fold (ClientDuplexStreamImpl_step nb sr ds pr) ops s))
       \<and> (\<forall>m. Push (Some m) \<in> set (log (fold (ClientDuplexStreamImpl_step nb sr ds pr) ops s))
             \<longrightarrow> Push (Some m) \<in> set (log s))"
  using assms
proof (induction ops arbitrary: s)
  case Nil
  then show ?case by simp
next
  case (Cons x ops)
  let ?s' = "ClientDuplexStreamImpl_step nb sr ds pr x s"
  from Cons.prems(3) have x: "x \<noteq> DRead" and rest: "DRead \<notin> set ops" by auto
  have nd: "\<forall>d. x \<noteq> DFromCall (OnData d)"
  proof (intro allI notI)
    fix d assume "x = DFromCall (OnData d)"
    with Cons.prems(1,2) show False by simp
  qed
  have resp: "duplex_respects_pause nb sr ds pr ops ?s'"
    using Cons.prems(2) by (cases x) simp_all
  have paused: "call_paused (log ?s')"
    using Cons.prems(1) x by (simp add: log_duplex_step call_paused_append effects_no_resume)
  from Cons.IH [OF paused resp rest] nd
  show ?case
    by (auto simp: log_duplex_step effects_no_message)
qed

lemma readable_respects_as_duplex:
  "readable_respects_pause ds pr ops s =
     duplex_respects_pause nb sr ds pr (map as_duplex ops) s"
proof (induction ops arbitrary: s)
  case Nil
  show ?case by simp
next
  case (Cons x ops)
  show ?case
    by (cases x) (simp_all add: Cons.IH readable_as_duplex [where nb = nb and sr = sr])
qed

text \<open>
  C9. A readable and a duplex stream pause the Call as the last act of their construction.
  Over any sequence of operations the Call is resumed once per call of \<open>_read\<close> and by
  nothing else. With the Call's pause contract (a paused Call emits no \<open>data\<close> event), a
  sequence of operations without a \<open>_read\<close> therefore holds no \<open>data\<close> event, leaves the
  Call paused, and pushes no message to the stream.
\<close>

theorem paused_until_read:
  "log (ClientReadableStreamImpl l) = l @ [Pause]
   \<and> log (ClientDuplexStreamImpl l) = l @ [Pause]
   \<and> call_paused (log (ClientReadableStreamImpl l))
   \<and> call_paused (log (ClientDuplexStreamImpl l))
   \<and> count_list (log (readable_after ds pr l rops)) Resume =
       count_list l Resume + count_list rops RRead
   \<and> count_list (log (duplex_after nb sr ds pr l ops)) Resume =
       count_list l Resume + count_list ops DRead
   \<and> (readable_respects_pause ds pr rops (ClientReadableStreamImpl l) \<and> RRead \<notin> set rops \<longrightarrow>
        (\<forall>d. RFromCall (OnData d) \<notin> set rops)
        \<and> call_paused (log (readable_after ds pr l rops))
        \<and> (\<forall>m. Push (Some m) \<in> set (log (readable_after ds pr l rops)) \<longrightarrow> Push (Some m) \<in> set l))
   \<and> (duplex_respects_pause nb sr ds pr ops (ClientDuplexStreamImpl l) \<and> DRead \<notin> set ops \<longrightarrow>
        (\<forall>d. DFromCall (OnData d) \<notin> set ops)
        \<and> call_paused (log (duplex_after nb sr ds pr l ops))
        \<and> (\<forall>m. Push (Some m) \<in> set (log (duplex_after nb sr ds pr l ops)) \<longrightarrow> Push (Some m) \<in> set l))"
proof -
  have new: "log (setUpReadableStream l) = l @ [Pause]"
    by (simp add: setUpReadableStream_def)
  have p: "call_paused (log (setUpReadableStream l))"
    by (simp add: new)
  have 5: "count_list (log (readable_after ds pr l rops)) Resume =
       count_list l Resume + count_list rops RRead"
    by (simp add: readable_after_def ClientReadableStreamImpl_def count_resume_fold_readable new)
  have 6: "count_list (log (duplex_after nb sr ds pr l ops)) Resume =
       count_list l Resume + count_list ops DRead"
    by (simp add: duplex_after_def ClientDuplexStreamImpl_def count_resume_fold_duplex new)
  have 8: "duplex_respects_pause nb sr ds pr ops (ClientDuplexStreamImpl l) \<and> DRead \<notin> set ops \<longrightarrow>
        (\<forall>d. DFromCall (OnData d) \<notin> set ops)
        \<and> call_paused (log (duplex_after nb sr ds pr l ops))
        \<and> (\<forall>m. Push (Some m) \<in> set (log (duplex_after nb sr ds pr l ops)) \<longrightarrow> Push (Some m) \<in> set l)"
  proof
    assume a: "duplex_respects_pause nb sr ds pr ops (ClientDuplexStreamImpl l) \<and> DRead \<notin> set ops"
    then have "duplex_respects_pause nb sr ds pr ops (setUpReadableStream l)" "DRead \<notin> set ops"
      by (simp_all add: ClientDuplexStreamImpl_def)
    from paused_no_data [OF p this]
    show "(\<forall>d. DFromCall (OnData d) \<notin> set ops)
        \<and> call_paused (log (duplex_after nb sr ds pr l ops))
        \<and> (\<forall>m. Push (Some m) \<in> set (log (duplex_after nb sr ds pr l ops)) \<longrightarrow> Push (Some m) \<in> set l)"
      by (simp add: duplex_after_def ClientDuplexStreamImpl_def new)
  qed
  have 7: "readable_respects_pause ds pr rops (ClientReadableStreamImpl l) \<and> RRead \<notin> set rops \<longrightarrow>
        (\<forall>d. RFromCall (OnData d) \<notin> set rops)
        \<and> call_paused (log (readable_after ds pr l rops))
        \<and> (\<forall>m. Push (Some m) \<in> set (log (readable_after ds pr l rops)) \<longrightarrow> Push (Some m) \<in> set l)"
  proof
    let ?nb = "\<lambda>_::string. None :: 'a option" and ?sr = "\<lambda>_::unit. Inl [] :: js_error + buffer"
    let ?ops = "map as_duplex rops :: unit duplex_op list"
    assume a: "readable_respects_pause ds pr rops (ClientReadableStreamImpl l) \<and> RRead \<notin> set rops"
    then have r: "duplex_respects_pause ?nb ?sr ds pr ?ops (setUpReadableStream l)"
      by (simp add: ClientReadableStreamImpl_def
          readable_respects_as_duplex [where nb = ?nb and sr = ?sr])
    have n: "DRead \<notin> set ?ops"
    proof
      assume "DRead \<in> set ?ops"
      then obtain x where x: "x \<in> set rops" "as_duplex x = (DRead :: unit duplex_op)"
        by auto
      from x(2) have "x = RRead" by (cases x) simp_all
      with x(1) a show False by blast
    qed
    from paused_no_data [OF p r n]
    have d: "\<forall>d. DFromCall (OnData d) \<notin> set ?ops"
      and c: "call_paused (log (fold (ClientDuplexStreamImpl_step ?nb ?sr ds pr) ?ops (setUpReadableStream l)))"
      and m: "\<forall>m. Push (Some m) \<in> set (log (fold (ClientDuplexStreamImpl_step ?nb ?sr ds pr) ?ops
                  (setUpReadableStream l))) \<longrightarrow> Push (Some m) \<in> set (log (setUpReadableStream l))"
      by blast+
    have "RFromCall (OnData d) \<notin> set rops" for d
    proof
      assume "RFromCall (OnData d) \<in> set rops"
      then have "(as_duplex (RFromCall (OnData d)) :: unit duplex_op) \<in> as_duplex ` set rops"
        by (rule imageI)
      with d show False by simp
    qed
    with c m show "(\<forall>d. RFromCall (OnData d) \<notin> set rops)
        \<and> call_paused (log (readable_after ds pr l rops))
        \<and> (\<forall>m. Push (Some m) \<in> set (log (readable_after ds pr l rops)) \<longrightarrow> Push (Some m) \<in> set l)"
      by (simp add: readable_after_def ClientReadableStreamImpl_def new
          fold_readable_as_duplex [where nb = ?nb and sr = ?sr])
  qed
  show ?thesis
    using new p 5 6 7 8
    by (simp only: ClientReadableStreamImpl_def ClientDuplexStreamImpl_def simp_thms)
qed

theorem paused_until_read_witness:
  "readable_respects_pause sample_deserialize (\<lambda>l. True)
     [RFromCall (OnMetadata []), RCancel, RFromCall OnEnd,
      RFromCall (OnStatus (sample_status CANCELLED))]
     (ClientReadableStreamImpl ([] :: (nat, nat) effect list))
   \<and> \<not> readable_respects_pause sample_deserialize (\<lambda>l. True) [RFromCall (OnData [1])]
     (ClientReadableStreamImpl ([] :: (nat, nat) effect list))
   \<and> readable_respects_pause sample_deserialize (\<lambda>l. True) [RRead, RFromCall (OnData [1])]
     (ClientReadableStreamImpl ([] :: (nat, nat) effect list))
   \<and> call_paused (log (readable_after sample_deserialize (\<lambda>l. True) ([] :: (nat, nat) effect list)
        [RFromCall (OnMetadata []), RCancel, RFromCall OnEnd,
         RFromCall (OnStatus (sample_status CANCELLED))]))
   \<and> (\<forall>m. Push (Some m) \<notin> set (log (readable_after sample_deserialize (\<lambda>l. True)
        ([] :: (nat, nat) effect list)
        [RFromCall (OnMetadata []), RCancel, RFromCall OnEnd,
         RFromCall (OnStatus (sample_status CANCELLED))])))
   \<and> duplex_respects_pause (\<lambda>enc. None :: nat option) sample_serialize sample_deserialize
        (\<lambda>l. True) [DFromCall (OnMetadata []), DWrite 5 ''1'' 7, DFinal 8]
        (ClientDuplexStreamImpl [])
   \<and> call_paused (log (duplex_after (\<lambda>enc. None :: nat option) sample_serialize
        sample_deserialize (\<lambda>l. True) []
        [DFromCall (OnMetadata []), DWrite 5 ''1'' 7, DFinal 8]))
   \<and> (\<forall>m. Push (Some m) \<notin> set (log (duplex_after (\<lambda>enc. None :: nat option) sample_serialize
        sample_deserialize (\<lambda>l. True) []
        [DFromCall (OnMetadata []), DWrite 5 ''1'' 7, DFinal 8])))"
proof -
  let ?l = "[] :: (nat, nat) effect list"
  let ?rops = "[RFromCall (OnMetadata []), RCancel, RFromCall OnEnd,
      RFromCall (OnStatus (sample_status CANCELLED))]"
  let ?ops = "[DFromCall (OnMetadata []), DWrite (5::nat) ''1'' 7, DFinal 8]"
  let ?nb = "\<lambda>enc::string. None :: nat option"
  have paused [simp]: "call_paused [Pause :: (nat, nat) effect]"
    "call_paused [Pause :: (nat, nat) effect, Resume] = False"
    by (simp_all add: call_paused_def)
  have r1: "readable_respects_pause sample_deserialize (\<lambda>l. True) ?rops (ClientReadableStreamImpl ?l)"
    by (simp add: ClientReadableStreamImpl_def setUpReadableStream_def)
  have r2: "\<not> readable_respects_pause sample_deserialize (\<lambda>l. True) [RFromCall (OnData [1])]
     (ClientReadableStreamImpl ?l)"
    by (simp add: ClientReadableStreamImpl_def setUpReadableStream_def)
  have r3: "readable_respects_pause sample_deserialize (\<lambda>l. True) [RRead, RFromCall (OnData [1])]
     (ClientReadableStreamImpl ?l)"
    by (simp add: ClientReadableStreamImpl_def setUpReadableStream_def
        ClientReadableStreamImpl_read_def)
  have r4: "RRead \<notin> set ?rops" by simp
  have d1: "duplex_respects_pause ?nb sample_serialize sample_deserialize (\<lambda>l. True) ?ops
        (ClientDuplexStreamImpl ?l)"
    by (simp add: ClientDuplexStreamImpl_def setUpReadableStream_def)
  have d2: "DRead \<notin> set ?ops" by simp
  note t = paused_until_read [where l = ?l and ds = sample_deserialize and pr = "\<lambda>l. True"
      and rops = ?rops and nb = ?nb and sr = sample_serialize and ops = ?ops]
  from t have "readable_respects_pause sample_deserialize (\<lambda>l. True) ?rops
        (ClientReadableStreamImpl ?l) \<and> RRead \<notin> set ?rops \<longrightarrow>
        (\<forall>d. RFromCall (OnData d) \<notin> set ?rops)
        \<and> call_paused (log (readable_after sample_deserialize (\<lambda>l. True) ?l ?rops))
        \<and> (\<forall>m. Push (Some m) \<in> set (log (readable_after sample_deserialize (\<lambda>l. True) ?l ?rops))
              \<longrightarrow> Push (Some m) \<in> set ?l)"
    by (elim conjE)
  with r1 r4 have a: "call_paused (log (readable_after sample_deserialize (\<lambda>l. True) ?l ?rops))"
    and b: "\<forall>m. Push (Some m) \<notin> set (log (readable_after sample_deserialize (\<lambda>l. True) ?l ?rops))"
    by simp_all
  from t have "duplex_respects_pause ?nb sample_serialize sample_deserialize (\<lambda>l. True) ?ops
        (ClientDuplexStreamImpl ?l) \<and> DRead \<notin> set ?ops \<longrightarrow>
        (\<forall>d. DFromCall (OnData d) \<notin> set ?ops)
        \<and> call_paused (log (duplex_after ?nb sample_serialize sample_deserialize (\<lambda>l. True) ?l ?ops))
        \<and> (\<forall>m. Push (Some m) \<in> set (log (duplex_after ?nb sample_serialize sample_deserialize
              (\<lambda>l. True) ?l ?ops)) \<longrightarrow> Push (Some m) \<in> set ?l)"
    by (elim conjE)
  with d1 d2 have c: "call_paused (log (duplex_after ?nb sample_serialize sample_deserialize
        (\<lambda>l. True) ?l ?ops))"
    and d: "\<forall>m. Push (Some m) \<notin> set (log (duplex_after ?nb sample_serialize sample_deserialize
        (\<lambda>l. True) ?l ?ops))"
    by simp_all
  show ?thesis by (intro conjI r1 r2 r3 a b d1 c d)
qed

subsection \<open>The channel of a client\<close>

text \<open>
  C10. The constructor chooses the channel by precedence: a \<open>channelOverride\<close> is taken as
  it is and nothing is built; otherwise a \<open>channelFactoryOverride\<close> is called once, with
  the address, the credentials and the options, and its result is taken; otherwise one
  \<open>Http2Channel\<close> is built from the same three. At most one channel is made,
  \<open>getChannel\<close> returns the chosen one, and \<open>close\<close> leaves it in place.
\<close>

theorem channel_precedence:
  "(channelOverride options = Some ch \<longrightarrow>
      Client cf nh address creds (Some options) = (\<lparr>kChannel = ch\<rparr>, []))
   \<and> (channelOverride options = None \<and> channelFactoryOverride options = Some f \<longrightarrow>
      Client cf nh address creds (Some options) =
        (\<lparr>kChannel = cf f address creds options\<rparr>, [CallFactory f address creds options]))
   \<and> (channelOverride options = None \<and> channelFactoryOverride options = None \<longrightarrow>
      Client cf nh address creds (Some options) =
        (\<lparr>kChannel = nh address creds options\<rparr>, [NewHttp2Channel address creds options]))
   \<and> Client cf nh address creds None =
        (\<lparr>kChannel = nh address creds no_client_options\<rparr>,
         [NewHttp2Channel address creds no_client_options])
   \<and> length (snd (Client cf nh address creds options_arg)) \<le> 1
   \<and> getChannel (fst (Client cf nh address creds options_arg)) =
       kChannel (fst (Client cf nh address creds options_arg))
   \<and> getChannel (fst (close c)) = getChannel c"
  by (simp add: Client_def getChannel_def close_def no_client_options_def Let_def
      split: option.split)

theorem channel_precedence_witness:
  "Client sample_factory sample_Http2Channel ''localhost:50051'' 0
      (Some \<lparr>channelOverride = Some 42, channelFactoryOverride = Some 5, channel_options = []\<rparr>) =
     (\<lparr>kChannel = 42\<rparr>, [])
   \<and> Client sample_factory sample_Http2Channel ''localhost:50051'' 0
      (Some \<lparr>channelOverride = None, channelFactoryOverride = Some 5, channel_options = []\<rparr>) =
     (\<lparr>kChannel = 105\<rparr>,
      [CallFactory 5 ''localhost:50051'' 0
         \<lparr>channelOverride = None, channelFactoryOverride = Some 5, channel_options = []\<rparr>])
   \<and> Client sample_factory sample_Http2Channel ''localhost:50051'' 0
      (Some \<lparr>channelOverride = None, channelFactoryOverride = None, channel_options = []\<rparr>) =
     (\<lparr>kChannel = 1\<rparr>,
      [NewHttp2Channel ''localhost:50051'' 0
         \<lparr>channelOverride = None, channelFactoryOverride = None, channel_options = []\<rparr>])"
proof -
  let ?o1 = "\<lparr>channelOverride = Some 42, channelFactoryOverride = Some 5, channel_options = []\<rparr>"
  let ?o2 = "\<lparr>channelOverride = None, channelFactoryOverride = Some 5, channel_options = []\<rparr>"
  let ?o3 = "\<lparr>channelOverride = None, channelFactoryOverride = None, channel_options = []\<rparr>"
  have 1: "Client sample_factory sample_Http2Channel ''localhost:50051'' 0 (Some ?o1) =
     (\<lparr>kChannel = 42\<rparr>, [])"
    using channel_precedence [where options = ?o1 and ch = 42 and cf = sample_factory
        and nh = sample_Http2Channel and address = "''localhost:50051''" and creds = 0]
    by simp
  have 2: "Client sample_factory sample_Http2Channel ''localhost:50051'' 0 (Some ?o2) =
     (\<lparr>kChannel = 105\<rparr>, [CallFactory 5 ''localhost:50051'' 0 ?o2])"
    using channel_precedence [where options = ?o2 and f = 5 and cf = sample_factory
        and nh = sample_Http2Channel and address = "''localhost:50051''" and creds = 0]
    by (simp add: sample_factory_def)
  have 3: "Client sample_factory sample_Http2Channel ''localhost:50051'' 0 (Some ?o3) =
     (\<lparr>kChannel = 1\<rparr>, [NewHttp2Channel ''localhost:50051'' 0 ?o3])"
    using channel_precedence [where options = ?o3 and cf = sample_factory
        and nh = sample_Http2Channel and address = "''localhost:50051''" and creds = 0]
    by (simp add: sample_Http2Channel_def)
  show ?thesis by (intro conjI 1 2 3)
qed

subsection \<open>The unary response handler\<close>




lemma response_unary_end [simp]:
  "responseMessage (handleUnaryResponse_end u) = responseMessage u"
  by (simp add: handleUnaryResponse_end_def perform_def)




lemma response_unary_status [simp]:
  "responseMessage (handleUnaryResponse_status cb st u) = responseMessage u"
  by (simp add: handleUnaryResponse_status_def perform_def)







subsection \<open>Resolution of the optional arguments\<close>








end
